theory Spec2Isabelle
  imports Main
begin

section \<open>Python values and the library functions the lookups call\<close>

text \<open>
  The four lookup classes (\<^verbatim>\<open>ArinWhois\<close>, \<^verbatim>\<open>IPReputation\<close>, \<^verbatim>\<open>IPGeoLocation\<close>,
  \<^verbatim>\<open>MacAddressLookup\<close>) handle the values that \<^verbatim>\<open>json.loads\<close> produces: \<^verbatim>\<open>None\<close>,
  booleans, integers, floats, strings, lists and dictionaries with string keys.

  \<^item> A Python \<^verbatim>\<open>str\<close> is a \<open>string\<close>; a \<open>char\<close> stands for a code point below 256.
  \<^item> A \<^verbatim>\<open>float\<close> is carried as the text \<^verbatim>\<open>float.__repr__\<close> gives for it
    (\<^verbatim>\<open>'37.751'\<close>, \<^verbatim>\<open>'-97.822'\<close>, \<^verbatim>\<open>'1e+16'\<close>, \<^verbatim>\<open>'inf'\<close>, \<^verbatim>\<open>'nan'\<close>): the code never
    computes with a float, it only tests, prints and stores it.
  \<^item> A \<^verbatim>\<open>dict\<close> is an association list in insertion order; a key is read with
    \<open>map_of\<close>. The keys of a parsed JSON object are distinct.
\<close>

datatype pyval =
    PNone
  | PBool bool
  | PInt int
  | PFloat string
  | PStr string
  | PList "pyval list"
  | PDict "(string \<times> pyval) list"

type_synonym py_dict = "(string \<times> pyval) list"

text \<open>The exception classes of \<^verbatim>\<open>requests\<close> that the handlers tell apart:
  \<^verbatim>\<open>ConnectTimeout\<close> is a subclass of both \<^verbatim>\<open>ConnectionError\<close> and \<^verbatim>\<open>Timeout\<close>,
  \<^verbatim>\<open>ReadTimeout\<close> of \<^verbatim>\<open>Timeout\<close> only; all are \<^verbatim>\<open>RequestException\<close>s.\<close>

datatype req_exc = ConnectionError | ConnectTimeout | ReadTimeout | OtherRequestException

fun is_ConnectionError :: "req_exc \<Rightarrow> bool" where
  "is_ConnectionError ConnectionError = True"
| "is_ConnectionError ConnectTimeout = True"
| "is_ConnectionError ReadTimeout = False"
| "is_ConnectionError OtherRequestException = False"

fun is_Timeout :: "req_exc \<Rightarrow> bool" where
  "is_Timeout ConnectionError = False"
| "is_Timeout ConnectTimeout = True"
| "is_Timeout ReadTimeout = True"
| "is_Timeout OtherRequestException = False"

datatype py_error =
    KeyError
  | TypeError
  | IndexError
  | ValueError
  | JSONDecodeError
  | RequestsError req_exc

text \<open>What a call does: it returns a value, it calls \<^verbatim>\<open>sys.exit(code)\<close>, or an exception
  leaves it uncaught. A \<open>run\<close> pairs that with the lines the call has printed, in
  order.\<close>

datatype 'a outcome = Returned 'a | SysExit int | Raised py_error

type_synonym 'a run = "string list \<times> 'a outcome"

definition bind_run :: "'a run \<Rightarrow> ('a \<Rightarrow> 'b run) \<Rightarrow> 'b run" where
  "bind_run m f =
     (case m of
        (out, Returned x) \<Rightarrow> (case f x of (out', r) \<Rightarrow> (out @ out', r))
      | (out, SysExit c) \<Rightarrow> (out, SysExit c)
      | (out, Raised e) \<Rightarrow> (out, Raised e))"

definition bind_err :: "py_error + 'a \<Rightarrow> ('a \<Rightarrow> py_error + 'b) \<Rightarrow> py_error + 'b" where
  "bind_err m f = (case m of Inl e \<Rightarrow> Inl e | Inr x \<Rightarrow> f x)"

text \<open>A pure computation that may raise, run as a call that prints nothing.\<close>

definition lift_err :: "py_error + 'a \<Rightarrow> 'a run" where
  "lift_err m = (case m of Inl e \<Rightarrow> ([], Raised e) | Inr x \<Rightarrow> ([], Returned x))"

text \<open>The process ends without the call returning: \<^verbatim>\<open>sys.exit\<close> or an uncaught exception.\<close>

fun is_fatal :: "'a run \<Rightarrow> bool" where
  "is_fatal (out, Returned x) = False"
| "is_fatal (out, SysExit c) = True"
| "is_fatal (out, Raised e) = True"

text \<open>Modelled from the spec: the module \<^verbatim>\<open>utilities.colorized_text\<close> is not among the
  sources. The spec leaves output coloring to an external collaborator and says that a
  reported error surfaces as a human-readable message on the console, and that it raises
  nothing the caller must catch: \<^verbatim>\<open>colorized_text(text=..., color='red')\<close> prints its text
  and returns.\<close>

definition colorized_text :: "string \<Rightarrow> unit run" where
  "colorized_text txt = ([txt], Returned ())"

text \<open>\<^verbatim>\<open>sys.exit(code)\<close>\<close>

definition sys_exit :: "int \<Rightarrow> 'a run" where
  "sys_exit code = ([], SysExit code)"

subsection \<open>Truth value and subscription\<close>

text \<open>\<^verbatim>\<open>bool(v)\<close>, as \<^verbatim>\<open>if v:\<close> and \<^verbatim>\<open>not v\<close> use it.\<close>

fun truthy :: "pyval \<Rightarrow> bool" where
  "truthy PNone = False"
| "truthy (PBool b) = b"
| "truthy (PInt n) = (n \<noteq> 0)"
| "truthy (PFloat s) = (s \<noteq> ''0.0'' \<and> s \<noteq> ''-0.0'')"
| "truthy (PStr s) = (s \<noteq> [])"
| "truthy (PList xs) = (xs \<noteq> [])"
| "truthy (PDict kvs) = (kvs \<noteq> [])"

text \<open>\<^verbatim>\<open>v[key]\<close> with a string key: a dictionary raises \<^verbatim>\<open>KeyError\<close> when the key is
  absent; a list or a string raises \<^verbatim>\<open>TypeError\<close> (its indices must be integers); \<^verbatim>\<open>None\<close>,
  a boolean and a number are not subscriptable (\<^verbatim>\<open>TypeError\<close>).\<close>

fun getitem :: "pyval \<Rightarrow> string \<Rightarrow> py_error + pyval" where
  "getitem (PDict kvs) k = (case map_of kvs k of None \<Rightarrow> Inl KeyError | Some v \<Rightarrow> Inr v)"
| "getitem v k = Inl TypeError"

text \<open>\<^verbatim>\<open>v[0]\<close>: the first element of a list or the first character of a string
  (\<^verbatim>\<open>IndexError\<close> when empty); a dictionary with string keys has no key \<^verbatim>\<open>0\<close>.\<close>

fun getitem0 :: "pyval \<Rightarrow> py_error + pyval" where
  "getitem0 (PList []) = Inl IndexError"
| "getitem0 (PList (x # xs)) = Inr x"
| "getitem0 (PStr []) = Inl IndexError"
| "getitem0 (PStr (c # cs)) = Inr (PStr [c])"
| "getitem0 (PDict kvs) = Inl KeyError"
| "getitem0 v = Inl TypeError"

text \<open>\<^verbatim>\<open>v[k1][k2]...[kn]\<close>, read left to right.\<close>

fun getpath :: "pyval \<Rightarrow> string list \<Rightarrow> py_error + pyval" where
  "getpath v [] = Inr v"
| "getpath v (k # ks) = bind_err (getitem v k) (\<lambda>w. getpath w ks)"

subsection \<open>Text: \<^verbatim>\<open>str.strip\<close>, \<^verbatim>\<open>str.split\<close>, \<^verbatim>\<open>str\<close>, \<^verbatim>\<open>int\<close>, \<^verbatim>\<open>json.dumps\<close>\<close>

text \<open>\<^verbatim>\<open>s.strip('"')\<close> removes every leading and every trailing double quote.\<close>

definition strip_quotes :: "string \<Rightarrow> string" where
  "strip_quotes s = rev (dropWhile (\<lambda>c. c = CHR 0x22) (rev (dropWhile (\<lambda>c. c = CHR 0x22) s)))"

text \<open>\<^verbatim>\<open>s.split(sep=" ", maxsplit=1)[0]\<close>: the text before the first space, all of it
  when there is none.\<close>

definition split_first :: "string \<Rightarrow> string" where
  "split_first s = takeWhile (\<lambda>c. c \<noteq> CHR '' '') s"

definition digit_char :: "nat \<Rightarrow> char" where
  "digit_char d = ''0123456789abcdef'' ! d"

fun dec_nat :: "nat \<Rightarrow> string" where
  "dec_nat n = (if n < 10 then [digit_char n] else dec_nat (n div 10) @ [digit_char (n mod 10)])"

declare dec_nat.simps [simp del]

definition dec_int :: "int \<Rightarrow> string" where
  "dec_int i = (if i < 0 then CHR ''-'' # dec_nat (nat (- i)) else dec_nat (nat i))"

definition hex2 :: "nat \<Rightarrow> string" where
  "hex2 n = [digit_char (n div 16 mod 16), digit_char (n mod 16)]"

text \<open>\<^verbatim>\<open>json.dumps\<close> with its defaults (\<^verbatim>\<open>ensure_ascii=True\<close>, separators \<^verbatim>\<open>', '\<close> and
  \<^verbatim>\<open>': '\<close>). In a string, the quote, the backslash and every character outside
  \<^verbatim>\<open>' '..'~'\<close> are escaped.\<close>

definition json_escape :: "char \<Rightarrow> string" where
  "json_escape c =
     (if c = CHR 0x22 then [CHR 0x5C, CHR 0x22]
      else if c = CHR 0x5C then [CHR 0x5C, CHR 0x5C]
      else if c = CHR 0x0A then [CHR 0x5C, CHR ''n'']
      else if c = CHR 0x0D then [CHR 0x5C, CHR ''r'']
      else if c = CHR 0x09 then [CHR 0x5C, CHR ''t'']
      else if c = CHR 0x08 then [CHR 0x5C, CHR ''b'']
      else if c = CHR 0x0C then [CHR 0x5C, CHR ''f'']
      else if (of_char c :: nat) < 32 \<or> 126 < (of_char c :: nat)
        then [CHR 0x5C, CHR ''u'', CHR ''0'', CHR ''0''] @ hex2 (of_char c)
      else [c])"

definition json_string :: "string \<Rightarrow> string" where
  "json_string s = [CHR 0x22] @ concat (map json_escape s) @ [CHR 0x22]"

fun join :: "string \<Rightarrow> string list \<Rightarrow> string" where
  "join sep [] = []"
| "join sep [x] = x"
| "join sep (x # y # ys) = x @ sep @ join sep (y # ys)"

fun json_dumps :: "pyval \<Rightarrow> string" where
  "json_dumps PNone = ''null''"
| "json_dumps (PBool b) = (if b then ''true'' else ''false'')"
| "json_dumps (PInt i) = dec_int i"
| "json_dumps (PFloat s) =
     (if s = ''nan'' then ''NaN'' else if s = ''inf'' then ''Infinity''
      else if s = ''-inf'' then ''-Infinity'' else s)"
| "json_dumps (PStr s) = json_string s"
| "json_dumps (PList xs) = ''['' @ join '', '' (map json_dumps xs) @ '']''"
| "json_dumps (PDict kvs) =
     ''{'' @ join '', '' (map (\<lambda>kv. json_string (fst kv) @ '': '' @ json_dumps (snd kv)) kvs) @ ''}''"

text \<open>\<^verbatim>\<open>repr\<close> of a string: single quotes, unless the string holds a single quote and
  no double quote; the delimiter and the backslash are escaped, so are tab, newline and
  return, and the characters that are not printable are written \<^verbatim>\<open>\xhh\<close>.\<close>

definition printable :: "char \<Rightarrow> bool" where
  "printable c =
     (let n = (of_char c :: nat)
      in (32 \<le> n \<and> n < 127) \<or> (161 \<le> n \<and> n \<noteq> 173))"

definition repr_escape :: "char \<Rightarrow> char \<Rightarrow> string" where
  "repr_escape q c =
     (if c = q \<or> c = CHR 0x5C then [CHR 0x5C, c]
      else if c = CHR 0x09 then [CHR 0x5C, CHR ''t'']
      else if c = CHR 0x0A then [CHR 0x5C, CHR ''n'']
      else if c = CHR 0x0D then [CHR 0x5C, CHR ''r'']
      else if \<not> printable c then [CHR 0x5C, CHR ''x''] @ hex2 (of_char c)
      else [c])"

definition repr_string :: "string \<Rightarrow> string" where
  "repr_string s =
     (let q = (if CHR 0x27 \<in> set s \<and> CHR 0x22 \<notin> set s then CHR 0x22 else CHR 0x27)
      in [q] @ concat (map (repr_escape q) s) @ [q])"

fun py_repr :: "pyval \<Rightarrow> string" where
  "py_repr PNone = ''None''"
| "py_repr (PBool b) = (if b then ''True'' else ''False'')"
| "py_repr (PInt i) = dec_int i"
| "py_repr (PFloat s) = s"
| "py_repr (PStr s) = repr_string s"
| "py_repr (PList xs) = ''['' @ join '', '' (map py_repr xs) @ '']''"
| "py_repr (PDict kvs) =
     ''{'' @ join '', '' (map (\<lambda>kv. repr_string (fst kv) @ '': '' @ py_repr (snd kv)) kvs) @ ''}''"

text \<open>\<^verbatim>\<open>str(v)\<close>, which an f-string applies to each value it formats.\<close>

fun py_str :: "pyval \<Rightarrow> string" where
  "py_str (PStr s) = s"
| "py_str v = py_repr v"

text \<open>\<^verbatim>\<open>int(s)\<close> on a text: an optional sign and decimal digits give the number, any other
  text raises \<^verbatim>\<open>ValueError\<close>. (Python also accepts blanks around the number and
  underscores between digits; \<^verbatim>\<open>json.dumps\<close> produces neither in a text that starts
  with a sign or a digit.)\<close>

definition is_digit :: "char \<Rightarrow> bool" where
  "is_digit c = (c \<in> set ''0123456789'')"

definition digits_value :: "string \<Rightarrow> nat" where
  "digits_value s = foldl (\<lambda>acc c. 10 * acc + (of_char c - 48)) 0 s"

definition py_int :: "string \<Rightarrow> py_error + int" where
  "py_int s =
     (case s of
        [] \<Rightarrow> Inl ValueError
      | c # cs \<Rightarrow>
          if c = CHR ''-'' \<or> c = CHR ''+'' then
            (if cs \<noteq> [] \<and> list_all is_digit cs
             then Inr (if c = CHR ''-'' then - int (digits_value cs) else int (digits_value cs))
             else Inl ValueError)
          else if list_all is_digit s then Inr (int (digits_value s))
          else Inl ValueError)"

section \<open>The remote services\<close>

text \<open>
  What one \<^verbatim>\<open>requests\<close> call gives: a response with its status code and its body, or
  an exception of \<^verbatim>\<open>requests\<close> with its message. The body is \<open>Inr v\<close> when it is the JSON
  text of \<open>v\<close>, and \<open>Inl msg\<close> when it is not JSON (\<open>msg\<close> is the decoder's message).
  A service is a function from the request (the identifier, and the key for AbuseIPDB) to
  what the call gives. The pacing \<^verbatim>\<open>sleep(randint(a=1, b=3))\<close> before each request changes
  no value and is left out.
\<close>

datatype http_result =
    Response int "string + pyval"
  | Failed req_exc string

text \<open>The attribute \<^verbatim>\<open>lookup_value\<close>: a string, a list of strings, or anything else.\<close>

datatype lookup_value = LookupStr string | LookupList "string list" | LookupOther

text \<open>What a lookup returns: \<^verbatim>\<open>None\<close>, one dictionary, or a list of dictionaries.\<close>

datatype result = ResNone | ResDict py_dict | ResList "py_dict list"

text \<open>The handler shared by the field readers of \<^verbatim>\<open>ArinWhois\<close> and \<^verbatim>\<open>MacAddressLookup\<close>:
  \<^verbatim>\<open>try: <body> except KeyError: colorized_text(text=msg, color='red')\<close> followed by
  \<^verbatim>\<open>return None\<close>. Only \<^verbatim>\<open>KeyError\<close> is caught.\<close>

definition except_KeyError :: "py_error + pyval \<Rightarrow> string \<Rightarrow> pyval run" where
  "except_KeyError body msg =
     (case body of
        Inr v \<Rightarrow> ([], Returned v)
      | Inl e \<Rightarrow>
          if e = KeyError then bind_run (colorized_text msg) (\<lambda>_. ([], Returned PNone))
          else ([], Raised e))"

section \<open>\<^verbatim>\<open>ip_reputation_lookup.py\<close>: class \<^verbatim>\<open>IPReputation\<close>\<close>

text \<open>The three error branches of \<^verbatim>\<open>_get_json_data\<close> compute the same message,
  \<^verbatim>\<open>json.dumps(decoded_response["errors"][0]['detail']).strip('"')\<close>.\<close>

definition error_detail :: "pyval \<Rightarrow> py_error + string" where
  "error_detail decoded_response =
     bind_err (getitem decoded_response ''errors'') (\<lambda>errors.
     bind_err (getitem0 errors) (\<lambda>first.
     bind_err (getitem first ''detail'') (\<lambda>detail.
     Inr (strip_quotes (json_dumps detail)))))"

definition IPReputation_get_json_data ::
  "(string \<Rightarrow> string \<Rightarrow> http_result) \<Rightarrow> string \<Rightarrow> string \<Rightarrow> pyval run" where
  "IPReputation_get_json_data net ip_address api_key =
     (case net ip_address api_key of
        Failed exc msg \<Rightarrow>
          if is_ConnectionError exc then bind_run (colorized_text ''A ConnectionError has occurred.'') (\<lambda>_. sys_exit 1)
          else if is_Timeout exc then bind_run (colorized_text ''A connection timeout has occurred.'') (\<lambda>_. sys_exit 1)
          else ([], Raised (RequestsError exc))
      | Response status_code body \<Rightarrow>
          (case body of
             Inl msg \<Rightarrow> ([], Raised JSONDecodeError)
           | Inr decoded_response \<Rightarrow>
               if status_code = 401 then
                 bind_run (lift_err (error_detail decoded_response)) (\<lambda>error_message.
                 bind_run (colorized_text error_message) (\<lambda>_.
                   ([], Returned PNone)))
               else if status_code = 422 then
                 bind_run (lift_err (error_detail decoded_response)) (\<lambda>error_message.
                 bind_run (colorized_text error_message) (\<lambda>_.
                   ([], Returned PNone)))
               else if status_code = 429 then
                 bind_run (lift_err (error_detail decoded_response)) (\<lambda>error_message.
                 bind_run (colorized_text error_message) (\<lambda>_.
                   ([], Returned PNone)))
               else if status_code = 200 then ([], Returned decoded_response)
               else ([], Returned PNone)))"

definition IPReputation_determine_abuse_level :: "int \<Rightarrow> pyval" where
  "IPReputation_determine_abuse_level confidence_score =
     (if confidence_score = 0 then PStr ''not malicious''
      else if confidence_score = 100 then
        PStr ''is malicious and warrants additional investigation''
      else if 100 > confidence_score \<and> confidence_score > 25 then
        PStr ''likley malicious and warrants further investigation''
      else if 0 < confidence_score \<and> confidence_score \<le> 25 then
        PStr ''likley not malicious but warrants further investigation''
      else PNone)"

text \<open>\<^verbatim>\<open>json.dumps(json_data["data"][key])\<close>\<close>

definition dumps_data :: "pyval \<Rightarrow> string \<Rightarrow> py_error + string" where
  "dumps_data json_data key =
     bind_err (getpath json_data [''data'', key]) (\<lambda>v. Inr (json_dumps v))"

definition IPReputation_decoded_json :: "pyval \<Rightarrow> py_error + py_dict" where
  "IPReputation_decoded_json json_data =
     bind_err (dumps_data json_data ''ipAddress'') (\<lambda>ip_address.
     bind_err (dumps_data json_data ''domain'') (\<lambda>domain_name.
     bind_err (dumps_data json_data ''hostnames'') (\<lambda>host_name.
     bind_err (dumps_data json_data ''usageType'') (\<lambda>usage_type.
     bind_err (dumps_data json_data ''isp'') (\<lambda>isp_name.
     bind_err (dumps_data json_data ''countryCode'') (\<lambda>country_code.
     bind_err (dumps_data json_data ''abuseConfidenceScore'') (\<lambda>confidence_of_abuse.
     bind_err (py_int confidence_of_abuse) (\<lambda>score.
     bind_err (Inr (IPReputation_determine_abuse_level score)) (\<lambda>level_of_abuse.
     bind_err (dumps_data json_data ''isWhitelisted'') (\<lambda>white_listed.
     bind_err (dumps_data json_data ''isTor'') (\<lambda>tor_node.
     bind_err (dumps_data json_data ''totalReports'') (\<lambda>times_reported.
     bind_err (dumps_data json_data ''lastReportedAt'') (\<lambda>date_last_reported.
     Inr [(''ip_address'', PStr (strip_quotes ip_address)),
          (''domain_name'', PStr (strip_quotes domain_name)),
          (''host_name'', PStr host_name),
          (''usage_type'', PStr (strip_quotes usage_type)),
          (''isp_name'', PStr (strip_quotes isp_name)),
          (''country_code'', PStr (strip_quotes country_code)),
          (''confidence_of_abuse'', PStr (strip_quotes confidence_of_abuse)),
          (''level_of_abuse'', level_of_abuse),
          (''white_listed'', PStr (strip_quotes white_listed)),
          (''tor_node'', PStr (strip_quotes tor_node)),
          (''number_of_times_reported'', PStr (strip_quotes times_reported)),
          (''date_last_reported'', PStr (strip_quotes date_last_reported))])))))))))))))"

text \<open>The \<^verbatim>\<open>for item in self.lookup_value\<close> loop of \<^verbatim>\<open>query_abuse_database\<close>, with the
  list \<^verbatim>\<open>data_elements\<close> built so far.\<close>

fun IPReputation_loop ::
  "(string \<Rightarrow> string \<Rightarrow> http_result) \<Rightarrow> string \<Rightarrow> string list \<Rightarrow> py_dict list \<Rightarrow> py_dict list run" where
  "IPReputation_loop net api_key [] data_elements = ([], Returned data_elements)"
| "IPReputation_loop net api_key (item # items) data_elements =
     bind_run (IPReputation_get_json_data net item api_key) (\<lambda>data.
       if truthy data then
         bind_run (lift_err (IPReputation_decoded_json data)) (\<lambda>decoded.
           IPReputation_loop net api_key items (data_elements @ [decoded]))
       else IPReputation_loop net api_key items data_elements)"

fun IPReputation_query_abuse_database ::
  "(string \<Rightarrow> string \<Rightarrow> http_result) \<Rightarrow> lookup_value \<Rightarrow> string \<Rightarrow> result run" where
  "IPReputation_query_abuse_database net (LookupStr lookup) api_key =
     bind_run (IPReputation_get_json_data net lookup api_key) (\<lambda>data.
       if truthy data then
         bind_run (lift_err (IPReputation_decoded_json data)) (\<lambda>decoded.
           ([], Returned (ResDict decoded)))
       else ([], Returned ResNone))"
| "IPReputation_query_abuse_database net (LookupList lookup) api_key =
     bind_run (IPReputation_loop net api_key lookup []) (\<lambda>data_elements.
       ([], Returned (ResList data_elements)))"
| "IPReputation_query_abuse_database net LookupOther api_key = ([], Returned ResNone)"

section \<open>\<^verbatim>\<open>ip_geolocation_lookup.py\<close>: class \<^verbatim>\<open>IPGeoLocation\<close>\<close>

definition IPGeoLocation_get_json_data :: "(string \<Rightarrow> http_result) \<Rightarrow> string \<Rightarrow> pyval run" where
  "IPGeoLocation_get_json_data net ip_address =
     (case net ip_address of
        Failed exc msg \<Rightarrow>
          if is_ConnectionError exc then bind_run (colorized_text ''A ConnectionError has occurred.'') (\<lambda>_. sys_exit 1)
          else if is_Timeout exc then bind_run (colorized_text ''A connection timeout has occurred.'') (\<lambda>_. sys_exit 1)
          else ([], Raised (RequestsError exc))
      | Response status_code body \<Rightarrow>
          (case body of
             Inl msg \<Rightarrow> ([], Raised JSONDecodeError)
           | Inr decoded_response \<Rightarrow>
               if status_code = 200 then
                 bind_run (lift_err (getitem decoded_response ''status'')) (\<lambda>query_status.
                   if query_status = PStr ''fail'' then
                     bind_run
                       (colorized_text
                          (''The query failed. Please review your input data for '' @ ip_address))
                       (\<lambda>_. ([], Returned PNone))
                   else if query_status = PStr ''success'' then ([], Returned decoded_response)
                   else ([], Returned PNone))
               else ([], Returned PNone)))"

text \<open>\<^verbatim>\<open>json.dumps(json_data[key])\<close>\<close>

definition dumps_item :: "pyval \<Rightarrow> string \<Rightarrow> py_error + string" where
  "dumps_item json_data key = bind_err (getitem json_data key) (\<lambda>v. Inr (json_dumps v))"

definition IPGeoLocation_decoded_json :: "pyval \<Rightarrow> py_error + py_dict" where
  "IPGeoLocation_decoded_json json_data =
     bind_err (dumps_item json_data ''query'') (\<lambda>ip_address.
     bind_err (dumps_item json_data ''org'') (\<lambda>organization_name.
     bind_err (dumps_item json_data ''isp'') (\<lambda>isp_name.
     bind_err (dumps_item json_data ''countryCode'') (\<lambda>country_code.
     bind_err (dumps_item json_data ''regionName'') (\<lambda>region_name.
     bind_err (dumps_item json_data ''city'') (\<lambda>city_name.
     bind_err (dumps_item json_data ''lat'') (\<lambda>longitude.
     bind_err (dumps_item json_data ''lon'') (\<lambda>latitude.
     bind_err (dumps_item json_data ''timezone'') (\<lambda>timezone.
     bind_err (dumps_item json_data ''as'') (\<lambda>as_text.
     bind_err (Inr (split_first as_text)) (\<lambda>as_number.
     Inr [(''ip_address'', PStr (strip_quotes ip_address)),
          (''domain_name'', PStr (strip_quotes organization_name)),
          (''as_number'', PStr (strip_quotes as_number)),
          (''isp_name'', PStr (strip_quotes isp_name)),
          (''country_code'', PStr (strip_quotes country_code)),
          (''region_name'', PStr region_name),
          (''city_name'', PStr (strip_quotes city_name)),
          (''longitude'', PStr (strip_quotes longitude)),
          (''latitude'', PStr (strip_quotes latitude)),
          (''timezone'', PStr (strip_quotes timezone))])))))))))))"

fun IPGeoLocation_loop ::
  "(string \<Rightarrow> http_result) \<Rightarrow> string list \<Rightarrow> py_dict list \<Rightarrow> py_dict list run" where
  "IPGeoLocation_loop net [] data_elements = ([], Returned data_elements)"
| "IPGeoLocation_loop net (item # items) data_elements =
     bind_run (IPGeoLocation_get_json_data net item) (\<lambda>data.
       if truthy data then
         bind_run (lift_err (IPGeoLocation_decoded_json data)) (\<lambda>decoded.
           IPGeoLocation_loop net items (data_elements @ [decoded]))
       else IPGeoLocation_loop net items data_elements)"

fun IPGeoLocation_query_geolocation_database ::
  "(string \<Rightarrow> http_result) \<Rightarrow> lookup_value \<Rightarrow> result run" where
  "IPGeoLocation_query_geolocation_database net (LookupStr lookup) =
     bind_run (IPGeoLocation_get_json_data net lookup) (\<lambda>data.
       if truthy data then
         bind_run (lift_err (IPGeoLocation_decoded_json data)) (\<lambda>decoded.
           ([], Returned (ResDict decoded)))
       else ([], Returned ResNone))"
| "IPGeoLocation_query_geolocation_database net (LookupList lookup) =
     bind_run (IPGeoLocation_loop net lookup []) (\<lambda>data_elements.
       ([], Returned (ResList data_elements)))"
| "IPGeoLocation_query_geolocation_database net LookupOther = ([], Returned ResNone)"

section \<open>\<^verbatim>\<open>arin_whois_lookup.py\<close>: class \<^verbatim>\<open>ArinWhois\<close>\<close>

text \<open>
  The class attribute \<^verbatim>\<open>data\<close> (initially \<^verbatim>\<open>{}\<close>) is written by \<^verbatim>\<open>_get_whois_json\<close> and
  read by the three field readers. It is passed explicitly: the fetch takes the
  attribute's value and returns, with its own return value, the value the attribute has
  afterwards. Every exception of \<^verbatim>\<open>requests\<close> is a \<^verbatim>\<open>RequestException\<close>, and from
  \<^verbatim>\<open>requests\<close> 2.27 on so is the one \<^verbatim>\<open>response.json()\<close> raises on a body that is not
  JSON; the handlers of \<^verbatim>\<open>_get_whois_json\<close> catch them all.
\<close>

definition ArinWhois_get_whois_json ::
  "(string \<Rightarrow> http_result) \<Rightarrow> pyval \<Rightarrow> string \<Rightarrow> (pyval \<times> pyval) run" where
  "ArinWhois_get_whois_json net data ip_address =
     (case net ip_address of
        Failed exc e \<Rightarrow>
          if is_Timeout exc then
            bind_run (colorized_text (''Request timed out for IP address '' @ ip_address))
              (\<lambda>_. ([], Returned (PNone, data)))
          else
            bind_run (colorized_text (''An error occurred: '' @ e))
              (\<lambda>_. ([], Returned (PNone, data)))
      | Response status_code body \<Rightarrow>
          if status_code = 200 then
            (case body of
               Inl e \<Rightarrow>
                 bind_run (colorized_text (''An error occurred: '' @ e))
                   (\<lambda>_. ([], Returned (PNone, data)))
             | Inr json \<Rightarrow> ([], Returned (json, json)))
          else ([], Returned (PNone, data)))"

definition ArinWhois_get_registered_organization :: "pyval \<Rightarrow> pyval run" where
  "ArinWhois_get_registered_organization data =
     except_KeyError
       (bind_err (getpath data [''net'', ''orgRef'', ''@name'']) (\<lambda>name.
          if \<not> truthy name then Inr (PStr ''registered organization unavailable'')
          else getpath data [''net'', ''orgRef'', ''@name'']))
       ''Registered_organization is not present in JSON data''"

definition ArinWhois_get_network_range :: "pyval \<Rightarrow> pyval run" where
  "ArinWhois_get_network_range data =
     except_KeyError
       (bind_err (getpath data [''net'', ''netBlocks'', ''netBlock'', ''startAddress'', ''$''])
          (\<lambda>start.
          if \<not> truthy start then Inr (PStr ''netblock range unavailable'')
          else
            bind_err (getpath data [''net'', ''netBlocks'', ''netBlock'', ''startAddress'', ''$''])
              (\<lambda>starting_ip_address.
            bind_err (getpath data [''net'', ''netBlocks'', ''netBlock'', ''endAddress'', ''$''])
              (\<lambda>ending_ip_address.
            Inr (PStr (py_str starting_ip_address @ ''-'' @ py_str ending_ip_address))))))
       ''The JSON keys to obtain the network range were invalid.''"

definition ArinWhois_get_cidr_range :: "pyval \<Rightarrow> pyval run" where
  "ArinWhois_get_cidr_range data =
     except_KeyError
       (bind_err (getpath data [''net'', ''netBlocks'', ''netBlock'', ''startAddress'', ''$''])
          (\<lambda>start.
          if \<not> truthy start then Inr (PStr ''CIDR range unavailable'')
          else
            bind_err (getpath data [''net'', ''netBlocks'', ''netBlock'', ''startAddress'', ''$''])
              (\<lambda>starting_ip_address.
            bind_err (getpath data [''net'', ''netBlocks'', ''netBlock'', ''cidrLength'', ''$''])
              (\<lambda>cidr_subnet_range.
            Inr (PStr (py_str starting_ip_address @ ''/'' @ py_str cidr_subnet_range))))))
       ''The JSON keys to obtain the CIDR range were invalid.''"

text \<open>After the fetch, both branches of \<^verbatim>\<open>query_whois\<close> run the same four statements:
  the three readers, then the dictionary with the identifier and their results.\<close>

definition ArinWhois_data_elements :: "string \<Rightarrow> pyval \<Rightarrow> py_dict run" where
  "ArinWhois_data_elements item data =
     bind_run (ArinWhois_get_registered_organization data) (\<lambda>registered_organization.
     bind_run (ArinWhois_get_network_range data) (\<lambda>network_range.
     bind_run (ArinWhois_get_cidr_range data) (\<lambda>cidr_range.
     ([], Returned
        [(''ip_address'', PStr item),
         (''organization'', registered_organization),
         (''network'', network_range),
         (''cidr'', cidr_range)]))))"

text \<open>The loop of \<^verbatim>\<open>query_whois\<close>: the return value of the fetch is not used; the readers
  read the attribute as the fetch left it.\<close>

fun ArinWhois_loop ::
  "(string \<Rightarrow> http_result) \<Rightarrow> string list \<Rightarrow> py_dict list \<Rightarrow> pyval \<Rightarrow> (py_dict list \<times> pyval) run" where
  "ArinWhois_loop net [] data_elements data = ([], Returned (data_elements, data))"
| "ArinWhois_loop net (item # items) data_elements data =
     bind_run (ArinWhois_get_whois_json net data item) (\<lambda>fetched.
     bind_run (ArinWhois_data_elements item (snd fetched)) (\<lambda>data_item.
     ArinWhois_loop net items (data_elements @ [data_item]) (snd fetched)))"

fun ArinWhois_query_whois ::
  "(string \<Rightarrow> http_result) \<Rightarrow> pyval \<Rightarrow> lookup_value \<Rightarrow> (result \<times> pyval) run" where
  "ArinWhois_query_whois net data (LookupStr lookup) =
     bind_run (ArinWhois_get_whois_json net data lookup) (\<lambda>fetched.
     bind_run (ArinWhois_data_elements lookup (snd fetched)) (\<lambda>data_elements.
     ([], Returned (ResDict data_elements, snd fetched))))"
| "ArinWhois_query_whois net data (LookupList lookup) =
     bind_run (ArinWhois_loop net lookup [] data) (\<lambda>done.
       ([], Returned (ResList (fst done), snd done)))"
| "ArinWhois_query_whois net data LookupOther = ([], Returned (ResNone, data))"

section \<open>\<^verbatim>\<open>mac_address_vendor_lookup.py\<close>: class \<^verbatim>\<open>MacAddressLookup\<close>\<close>

text \<open>The class attribute \<^verbatim>\<open>data\<close> is passed as in \<^verbatim>\<open>ArinWhois\<close>. \<^verbatim>\<open>_get_json_data\<close> has
  no handler: an exception of \<^verbatim>\<open>requests.get\<close> or of \<^verbatim>\<open>response.json()\<close> leaves it.\<close>

definition MacAddressLookup_get_json_data ::
  "(string \<Rightarrow> http_result) \<Rightarrow> pyval \<Rightarrow> string \<Rightarrow> (pyval \<times> pyval) run" where
  "MacAddressLookup_get_json_data net data hardware_id =
     (case net hardware_id of
        Failed exc e \<Rightarrow> ([], Raised (RequestsError exc))
      | Response status_code body \<Rightarrow>
          if status_code = 400 then bind_run (colorized_text ''An unknown error has occurred.'') (\<lambda>_. sys_exit 1)
          else if status_code = 401 then bind_run (colorized_text ''An Unauthorized Request has occurred.'') (\<lambda>_. sys_exit 1)
          else if status_code = 429 then
            bind_run (colorized_text ''Too Many Requests with the Rate Limit period.'') (\<lambda>_. sys_exit 1)
          else if status_code = 200 then
            (case body of
               Inl e \<Rightarrow> ([], Raised JSONDecodeError)
             | Inr json \<Rightarrow> ([], Returned (json, json)))
          else ([], Returned (PNone, data)))"

definition MacAddressLookup_get_registered_organization :: "pyval \<Rightarrow> pyval run" where
  "MacAddressLookup_get_registered_organization data =
     except_KeyError
       (bind_err (getitem data ''isRand'') (\<lambda>is_rand.
          if is_rand = PBool True then Inr (PStr ''randomly assigned'')
          else
            bind_err (getitem data ''isRand'') (\<lambda>is_rand.
              if is_rand = PBool False then getitem data ''company'' else Inr PNone)))
       ''Registered organization is not present in JSON data''"

definition MacAddressLookup_get_registered_organization_address :: "pyval \<Rightarrow> pyval run" where
  "MacAddressLookup_get_registered_organization_address data =
     except_KeyError
       (bind_err (getitem data ''address'') (\<lambda>address.
          if \<not> truthy address then Inr (PStr ''address unavailable'')
          else getitem data ''address''))
       (''Registered organization'' @ [CHR 0x27] @ ''s address is not present in JSON data'')"

definition MacAddressLookup_get_registered_organization_country :: "pyval \<Rightarrow> pyval run" where
  "MacAddressLookup_get_registered_organization_country data =
     except_KeyError
       (bind_err (getitem data ''country'') (\<lambda>country.
          if \<not> truthy country then Inr (PStr ''country unavailable'')
          else getitem data ''country''))
       (''Registered organization'' @ [CHR 0x27] @ ''s country is not present in JSON data'')"

text \<open>The four statements both branches of \<^verbatim>\<open>lookup_address_information\<close> run after
  the fetch.\<close>

definition MacAddressLookup_data_elements :: "string \<Rightarrow> pyval \<Rightarrow> py_dict run" where
  "MacAddressLookup_data_elements item data =
     bind_run (MacAddressLookup_get_registered_organization data) (\<lambda>registered_organization.
     bind_run (MacAddressLookup_get_registered_organization_address data)
       (\<lambda>organization_address.
     bind_run (MacAddressLookup_get_registered_organization_country data) (\<lambda>country.
     ([], Returned
        [(''mac_address'', PStr item),
         (''registered_organization'', registered_organization),
         (''organization_address'', organization_address),
         (''country'', country)]))))"

fun MacAddressLookup_loop ::
  "(string \<Rightarrow> http_result) \<Rightarrow> string list \<Rightarrow> py_dict list \<Rightarrow> pyval \<Rightarrow> (py_dict list \<times> pyval) run" where
  "MacAddressLookup_loop net [] data_elements data = ([], Returned (data_elements, data))"
| "MacAddressLookup_loop net (item # items) data_elements data =
     bind_run (MacAddressLookup_get_json_data net data item) (\<lambda>fetched.
     bind_run (MacAddressLookup_data_elements item (snd fetched)) (\<lambda>data_item.
     MacAddressLookup_loop net items (data_elements @ [data_item]) (snd fetched)))"

fun MacAddressLookup_lookup_address_information ::
  "(string \<Rightarrow> http_result) \<Rightarrow> pyval \<Rightarrow> lookup_value \<Rightarrow> (result \<times> pyval) run" where
  "MacAddressLookup_lookup_address_information net data (LookupStr lookup) =
     bind_run (MacAddressLookup_get_json_data net data lookup) (\<lambda>fetched.
     bind_run (MacAddressLookup_data_elements lookup (snd fetched)) (\<lambda>data_elements.
     ([], Returned (ResDict data_elements, snd fetched))))"
| "MacAddressLookup_lookup_address_information net data (LookupList lookup) =
     bind_run (MacAddressLookup_loop net lookup [] data) (\<lambda>done.
       ([], Returned (ResList (fst done), snd done)))"
| "MacAddressLookup_lookup_address_information net data LookupOther =
     ([], Returned (ResNone, data))"

section \<open>Notions used to state the properties\<close>

text \<open>The value a fetch hands to its caller; \<^verbatim>\<open>None\<close> stands in when it does not return.\<close>

definition fetched_value :: "pyval run \<Rightarrow> pyval" where
  "fetched_value r = (case snd r of Returned v \<Rightarrow> v | SysExit c \<Rightarrow> PNone | Raised e \<Rightarrow> PNone)"

text \<open>A JSON number: an integer, or a float (whose text holds no quote).\<close>

fun is_number :: "pyval \<Rightarrow> bool" where
  "is_number (PInt i) = True"
| "is_number (PFloat s) = (CHR 0x22 \<notin> set s)"
| "is_number v = False"



definition IPGeoLocation_keys :: "string list" where
  "IPGeoLocation_keys =
     [''query'', ''org'', ''isp'', ''countryCode'', ''regionName'', ''city'', ''lat'', ''lon'',
      ''timezone'', ''as'']"

section \<open>Example services\<close>

text \<open>Services that answer as the real ones do, for the concrete runs below.\<close>

definition abuse_report :: pyval where
  "abuse_report =
     PDict [(''data'', PDict
       [(''ipAddress'', PStr ''67.21.32.233''),
        (''isPublic'', PBool True),
        (''ipVersion'', PInt 4),
        (''isWhitelisted'', PBool False),
        (''abuseConfidenceScore'', PInt 10),
        (''countryCode'', PStr ''US''),
        (''usageType'', PStr ''Data Center/Web Hosting/Transit''),
        (''isp'', PStr ''Example Hosting''),
        (''domain'', PStr ''example.com''),
        (''hostnames'', PList []),
        (''isTor'', PBool False),
        (''totalReports'', PInt 3),
        (''numDistinctUsers'', PInt 2),
        (''lastReportedAt'', PStr ''2024-07-01T10:00:00+00:00'')])]"

definition abuse_report_without_domain :: pyval where
  "abuse_report_without_domain =
     PDict [(''data'', PDict
       [(''ipAddress'', PStr ''67.21.32.230''),
        (''isWhitelisted'', PBool False),
        (''abuseConfidenceScore'', PInt 0),
        (''countryCode'', PStr ''US''),
        (''usageType'', PStr ''Data Center/Web Hosting/Transit''),
        (''isp'', PStr ''Example Hosting''),
        (''hostnames'', PList []),
        (''isTor'', PBool False),
        (''totalReports'', PInt 0),
        (''lastReportedAt'', PNone)])]"

definition abuse_errors :: "string \<Rightarrow> int \<Rightarrow> pyval" where
  "abuse_errors detail status =
     PDict [(''errors'', PList [PDict [(''detail'', PStr detail), (''status'', PInt status)]])]"

definition abuseipdb :: "string \<Rightarrow> string \<Rightarrow> http_result" where
  "abuseipdb ip_address api_key =
     (if ip_address = ''10.255.255.1'' then Failed ConnectionError ''Connection refused''
      else if api_key \<noteq> ''valid-key'' then
        Response 401 (Inr (abuse_errors ''Authentication failed.'' 401))
      else if ip_address = ''67.21.32.233'' then Response 200 (Inr abuse_report)
      else if ip_address = ''67.21.32.230'' then Response 200 (Inr abuse_report_without_domain)
      else Response 422 (Inr (abuse_errors ''The ip address must be a valid IPv4 or IPv6 address.'' 422)))"

definition geo_success :: pyval where
  "geo_success =
     PDict [(''status'', PStr ''success''),
            (''country'', PStr ''United States''),
            (''countryCode'', PStr ''US''),
            (''region'', PStr ''VA''),
            (''regionName'', PStr ''Virginia''),
            (''city'', PStr ''Ashburn''),
            (''zip'', PStr ''20149''),
            (''lat'', PFloat ''39.03''),
            (''lon'', PFloat ''-77.5''),
            (''timezone'', PStr ''America/New_York''),
            (''isp'', PStr ''Google LLC''),
            (''org'', PStr ''Google Public DNS''),
            (''as'', PStr ''AS15169 Google LLC''),
            (''query'', PStr ''8.8.8.8'')]"

definition geo_fail :: pyval where
  "geo_fail =
     PDict [(''status'', PStr ''fail''),
            (''message'', PStr ''invalid query''),
            (''query'', PStr ''not-an-address'')]"

definition geo_without_city :: pyval where
  "geo_without_city =
     PDict [(''status'', PStr ''success''),
            (''countryCode'', PStr ''US''),
            (''regionName'', PStr ''Virginia''),
            (''lat'', PFloat ''39.03''),
            (''lon'', PFloat ''-77.5''),
            (''timezone'', PStr ''America/New_York''),
            (''isp'', PStr ''Google LLC''),
            (''org'', PStr ''Google Public DNS''),
            (''as'', PStr ''AS15169 Google LLC''),
            (''query'', PStr ''8.8.4.4'')]"

definition ip_api :: "string \<Rightarrow> http_result" where
  "ip_api ip_address =
     (if ip_address = ''8.8.8.8'' then Response 200 (Inr geo_success)
      else if ip_address = ''8.8.4.4'' then Response 200 (Inr geo_without_city)
      else if ip_address = ''10.255.255.1'' then Failed ReadTimeout ''Read timed out.''
      else Response 200 (Inr geo_fail))"

definition arin_net :: pyval where
  "arin_net =
     PDict [(''net'', PDict
       [(''orgRef'', PDict [(''@handle'', PStr ''EXMPL''), (''@name'', PStr ''Example Hosting'')]),
        (''netBlocks'', PDict [(''netBlock'', PDict
           [(''cidrLength'', PDict [(''$'', PStr ''20'')]),
            (''endAddress'', PDict [(''$'', PStr ''67.21.47.255'')]),
            (''startAddress'', PDict [(''$'', PStr ''67.21.32.0'')])])])])]"

definition arin_net_without_org :: pyval where
  "arin_net_without_org =
     PDict [(''net'', PDict
       [(''netBlocks'', PDict [(''netBlock'', PDict
           [(''cidrLength'', PDict [(''$'', PStr ''8'')]),
            (''endAddress'', PDict [(''$'', PStr ''23.255.255.255'')]),
            (''startAddress'', PDict [(''$'', PStr ''23.0.0.0'')])])])])]"


definition arin :: "string \<Rightarrow> http_result" where
  "arin ip_address =
     (if ip_address = ''67.21.32.233'' then Response 200 (Inr arin_net)
      else if ip_address = ''23.1.2.3'' then Response 200 (Inr arin_net_without_org)
      else if ip_address = ''10.255.255.1'' then Failed ReadTimeout ''Read timed out.''
      else Response 404 (Inl ''Expecting value: line 1 column 1 (char 0)''))"

definition mac_vendor :: pyval where
  "mac_vendor =
     PDict [(''success'', PBool True),
            (''found'', PBool True),
            (''macPrefix'', PStr ''047BCB''),
            (''company'', PStr ''Universal Global Scientific Industrial Co., Ltd.''),
            (''address'', PStr ''141, Lane 351, Taiping Road, Nantou 54261''),
            (''country'', PStr ''TW''),
            (''isRand'', PBool False)]"

definition mac_random :: pyval where
  "mac_random =
     PDict [(''success'', PBool True),
            (''found'', PBool False),
            (''macPrefix'', PStr ''DA1234''),
            (''company'', PStr ''Example Devices''),
            (''address'', PStr []),
            (''country'', PStr []),
            (''isRand'', PBool True)]"

definition mac_without_country :: pyval where
  "mac_without_country =
     PDict [(''success'', PBool True),
            (''found'', PBool True),
            (''company'', PStr ''Example Devices''),
            (''address'', PStr ''1 Example Road''),
            (''isRand'', PBool False)]"


definition maclookup :: "string \<Rightarrow> http_result" where
  "maclookup hardware_id =
     (if hardware_id = ''04:7b:cb:3b:75:94'' then Response 200 (Inr mac_vendor)
      else if hardware_id = ''da:12:34:56:78:9a'' then Response 200 (Inr mac_random)
      else if hardware_id = ''00:11:22:33:44:55'' then Response 200 (Inr mac_without_country)
      else if hardware_id = ''ff:ff:ff:ff:ff:ff'' then Failed ConnectTimeout ''Connection timed out.''
      else Response 503 (Inl ''Expecting value: line 1 column 1 (char 0)''))"

section \<open>Basic facts\<close>

declare colorized_text_def [simp] sys_exit_def [simp]

lemma bind_run_Returned [simp]: "bind_run (out, Returned x) f = (out @ fst (f x), snd (f x))"
  by (simp add: bind_run_def split: prod.splits)

lemma bind_run_SysExit [simp]: "bind_run (out, SysExit c) f = (out, SysExit c)"
  by (simp add: bind_run_def)

lemma bind_run_Raised [simp]: "bind_run (out, Raised e) f = (out, Raised e)"
  by (simp add: bind_run_def)

lemma bind_err_Inl [simp]: "bind_err (Inl e) f = Inl e"
  by (simp add: bind_err_def)

lemma bind_err_Inr [simp]: "bind_err (Inr x) f = f x"
  by (simp add: bind_err_def)

lemma lift_err_Inl [simp]: "lift_err (Inl e) = ([], Raised e)"
  by (simp add: lift_err_def)

lemma lift_err_Inr [simp]: "lift_err (Inr x) = ([], Returned x)"
  by (simp add: lift_err_def)

lemma snd_bind_run:
  "snd (bind_run m f) =
     (case snd m of Returned x \<Rightarrow> snd (f x) | SysExit c \<Rightarrow> SysExit c | Raised e \<Rightarrow> Raised e)"
  by (cases m) (simp add: bind_run_def split: outcome.splits prod.splits)

lemma is_fatal_iff: "is_fatal r \<longleftrightarrow> (\<forall>x. snd r \<noteq> Returned x)"
  by (cases r rule: is_fatal.cases) simp_all

text \<open>A subscription that succeeds was made on a dictionary that is not empty; one that
  fails raises \<^verbatim>\<open>KeyError\<close> or \<^verbatim>\<open>TypeError\<close>.\<close>

lemma getitem_Inr_truthy: "getitem v k = Inr w \<Longrightarrow> truthy v"
  by (cases v) (auto split: option.splits)

lemma getitem_Inr_dict: "getitem v k = Inr w \<Longrightarrow> \<exists>kvs. v = PDict kvs"
  by (cases v) auto


subsection \<open>The text of a number has no quote to strip\<close>

lemma digit_char_decimal: "d < 10 \<Longrightarrow> digit_char d \<in> set ''0123456789''"
proof -
  assume "d < 10"
  then have "d \<in> {0, 1, 2, 3, 4, 5, 6, 7, 8, 9}" by auto
  then show ?thesis by (auto simp: digit_char_def)
qed

lemma dec_nat_digits: "set (dec_nat n) \<subseteq> set ''0123456789''"
proof (induction n rule: dec_nat.induct)
  case (1 n)
  show ?case
  proof (cases "n < 10")
    case True
    then show ?thesis using digit_char_decimal [of n] by (subst dec_nat.simps) simp
  next
    case False
    have "n mod 10 < 10" by simp
    then have "digit_char (n mod 10) \<in> set ''0123456789''" by (rule digit_char_decimal)
    with False 1 show ?thesis by (subst dec_nat.simps) simp
  qed
qed

lemma dec_int_no_quote: "CHR 0x22 \<notin> set (dec_int i)"
  using dec_nat_digits [of "nat i"] dec_nat_digits [of "nat (- i)"]
  by (auto simp: dec_int_def)

lemma strip_quotes_id: "CHR 0x22 \<notin> set s \<Longrightarrow> strip_quotes s = s"
proof -
  assume a: "CHR 0x22 \<notin> set s"
  then have 1: "dropWhile (\<lambda>c. c = CHR 0x22) s = s"
    by (cases s) auto
  from a have "CHR 0x22 \<notin> set (rev s)" by simp
  then have 2: "dropWhile (\<lambda>c. c = CHR 0x22) (rev s) = rev s"
    by (cases "rev s") auto
  show ?thesis by (simp add: strip_quotes_def 1 2)
qed

lemma json_dumps_number: "is_number v \<Longrightarrow> strip_quotes (json_dumps v) = json_dumps v"
  by (cases v) (auto intro!: strip_quotes_id simp: dec_int_no_quote)

subsection \<open>When a sequence of calls ends the process\<close>

lemma is_fatal_snd [simp]: "is_fatal (out, snd r) = is_fatal r"
  by (cases r rule: is_fatal.cases) simp_all

lemma is_fatal_or_Returned: "is_fatal r \<or> (\<exists>out v. r = (out, Returned v))"
  by (cases r rule: is_fatal.cases) simp_all

lemma is_fatal_bind_run:
  "is_fatal (bind_run m f) \<longleftrightarrow>
     is_fatal m \<or> (\<exists>out v. m = (out, Returned v) \<and> is_fatal (f v))"
  by (cases m rule: is_fatal.cases) simp_all

lemma is_fatal_lift_err_bind:
  "is_fatal (bind_run (lift_err m) f) \<longleftrightarrow> (case m of Inl e \<Rightarrow> True | Inr v \<Rightarrow> is_fatal (f v))"
  by (cases m) simp_all

subsection \<open>Unfolding for concrete runs\<close>

lemmas example_services =
  arin_def arin_net_def arin_net_without_org_def
  maclookup_def mac_vendor_def mac_random_def mac_without_country_def
  abuseipdb_def abuse_report_def abuse_report_without_domain_def abuse_errors_def
  ip_api_def geo_success_def geo_fail_def geo_without_city_def

lemmas text_functions =
  strip_quotes_def split_first_def json_string_def json_escape_def dec_int_def
  digit_char_def py_int_def is_digit_def digits_value_def

lemmas readers =
  except_KeyError_def error_detail_def dumps_data_def dumps_item_def
  ArinWhois_get_whois_json_def ArinWhois_get_registered_organization_def
  ArinWhois_get_network_range_def ArinWhois_get_cidr_range_def ArinWhois_data_elements_def
  MacAddressLookup_get_json_data_def MacAddressLookup_get_registered_organization_def
  MacAddressLookup_get_registered_organization_address_def
  MacAddressLookup_get_registered_organization_country_def MacAddressLookup_data_elements_def
  IPReputation_get_json_data_def IPReputation_decoded_json_def
  IPReputation_determine_abuse_level_def
  IPGeoLocation_get_json_data_def IPGeoLocation_decoded_json_def

lemma dec_nat_small [simp]: "n < 10 \<Longrightarrow> dec_nat n = [digit_char n]"
  by (subst dec_nat.simps) simp

lemma dec_nat_two [simp]: "10 \<le> n \<Longrightarrow> n < 100 \<Longrightarrow> dec_nat n = [digit_char (n div 10), digit_char (n mod 10)]"
  by (subst dec_nat.simps) simp

section \<open>Shared facts on the readers and the loops\<close>

lemma bind_run_eq_Returned:
  "bind_run m f = (out, Returned y) \<longleftrightarrow>
     (\<exists>out1 x out2. m = (out1, Returned x) \<and> f x = (out2, Returned y) \<and> out = out1 @ out2)"
proof (cases m)
  case (Pair o1 r)
  then show ?thesis
    by (cases r; cases "f (case r of Returned x \<Rightarrow> x)") (auto simp: bind_run_def)
qed

lemma ArinWhois_data_elements_key:
  "ArinWhois_data_elements x d = (out, Returned r) \<Longrightarrow> map_of r ''ip_address'' = Some (PStr x)"
  by (auto simp: ArinWhois_data_elements_def bind_run_eq_Returned)

lemma MacAddressLookup_data_elements_key:
  "MacAddressLookup_data_elements x d = (out, Returned r) \<Longrightarrow>
   map_of r ''mac_address'' = Some (PStr x)"
  by (auto simp: MacAddressLookup_data_elements_def bind_run_eq_Returned)

lemma MacAddressLookup_address_dict:
  "\<exists>out v. MacAddressLookup_get_registered_organization_address (PDict kvs) = (out, Returned v)"
  by (simp add: MacAddressLookup_get_registered_organization_address_def except_KeyError_def
      split: option.splits)

lemma MacAddressLookup_country_dict:
  "\<exists>out v. MacAddressLookup_get_registered_organization_country (PDict kvs) = (out, Returned v)"
  by (simp add: MacAddressLookup_get_registered_organization_country_def except_KeyError_def
      split: option.splits)

lemma except_KeyError_simps [simp]:
  "except_KeyError (Inl KeyError) msg = ([msg], Returned PNone)"
  "except_KeyError (Inr v) msg = ([], Returned v)"
  "e \<noteq> KeyError \<Longrightarrow> except_KeyError (Inl e) msg = ([], Raised e)"
  by (simp_all add: except_KeyError_def)



lemma bind_err_eq_Inr: "bind_err m f = Inr y \<longleftrightarrow> (\<exists>x. m = Inr x \<and> f x = Inr y)"
  by (cases m) simp_all

text \<open>The Record the readers build from a class attribute that is still empty.\<close>

lemma ArinWhois_data_elements_empty:
  "ArinWhois_data_elements x (PDict []) =
     ([''Registered_organization is not present in JSON data'',
       ''The JSON keys to obtain the network range were invalid.'',
       ''The JSON keys to obtain the CIDR range were invalid.''],
      Returned [(''ip_address'', PStr x), (''organization'', PNone),
                (''network'', PNone), (''cidr'', PNone)])"
  by (simp add: ArinWhois_data_elements_def ArinWhois_get_registered_organization_def
      ArinWhois_get_network_range_def ArinWhois_get_cidr_range_def)

lemma MacAddressLookup_data_elements_empty:
  "MacAddressLookup_data_elements x (PDict []) =
     ([''Registered organization is not present in JSON data'',
       ''Registered organization'' @ [CHR 0x27] @ ''s address is not present in JSON data'',
       ''Registered organization'' @ [CHR 0x27] @ ''s country is not present in JSON data''],
      Returned [(''mac_address'', PStr x), (''registered_organization'', PNone),
                (''organization_address'', PNone), (''country'', PNone)])"
  by (simp add: MacAddressLookup_data_elements_def
      MacAddressLookup_get_registered_organization_def
      MacAddressLookup_get_registered_organization_address_def
      MacAddressLookup_get_registered_organization_country_def)

subsection \<open>Extraction in the reputation and geolocation classes\<close>


lemma IPGeoLocation_decoded_json_needs_keys:
  assumes "IPGeoLocation_decoded_json json_data = Inr r" and "k \<in> set IPGeoLocation_keys"
  shows "\<exists>v. getitem json_data k = Inr v"
proof -
  have d: "dumps_item json_data k = Inr s \<Longrightarrow> \<exists>v. getitem json_data k = Inr v" for k s
    by (auto simp add: dumps_item_def bind_err_eq_Inr)
  from assms(1) have "\<forall>k \<in> set IPGeoLocation_keys. \<exists>s. dumps_item json_data k = Inr s"
    unfolding IPGeoLocation_decoded_json_def IPGeoLocation_keys_def bind_err_eq_Inr
    by (simp only: list.set ball_simps) blast
  with assms(2) d show ?thesis by blast
qed

text \<open>A list lookup of the registry hands on what its loop gives.\<close>

lemma ArinWhois_query_whois_list:
  "ArinWhois_query_whois net d (LookupList xs) =
     (fst (ArinWhois_loop net xs [] d),
      map_outcome (\<lambda>done. (ResList (fst done), snd done)) (snd (ArinWhois_loop net xs [] d)))"
proof (cases "ArinWhois_loop net xs [] d")
  case (Pair out r)
  then show ?thesis by (cases r) simp_all
qed

section \<open>An unauthorized request to the reputation service\<close>

lemma IPReputation_get_json_data_401:
  assumes "net ip key = Response 401 body"
  shows "IPReputation_get_json_data net ip key =
     (case body of
        Inl msg \<Rightarrow> ([], Raised JSONDecodeError)
      | Inr decoded \<Rightarrow>
          (case error_detail decoded of
             Inl e \<Rightarrow> ([], Raised e)
           | Inr m \<Rightarrow> ([m], Returned PNone)))"
  using assms by (simp add: IPReputation_get_json_data_def split: sum.splits)

lemma IPReputation_no_data_skipped:
  assumes "IPReputation_get_json_data net ip key = (out, Returned PNone)"
  shows "IPReputation_query_abuse_database net (LookupStr ip) key = (out, Returned ResNone)"
    and "IPReputation_loop net key (ip # items) acc =
           (out @ fst (IPReputation_loop net key items acc),
            snd (IPReputation_loop net key items acc))"
  using assms by simp_all

text \<open>
  C1, as the code has it. A fetch of the reputation source that receives HTTP 401 never
  makes the lookup return a Record, but it is not fatal: when the body carries
  \<^verbatim>\<open>errors[0].detail\<close>, the detail is printed and the fetch returns \<^verbatim>\<open>None\<close> to its caller,
  so a scalar lookup returns \<^verbatim>\<open>None\<close> and the loop of a list lookup goes on with the
  identifiers that follow.
\<close>

theorem reputation_unauthorized_reported:
  assumes "net ip key = Response 401 body"
  shows "(\<forall>r. snd (IPReputation_query_abuse_database net (LookupStr ip) key) \<noteq> Returned (ResDict r))
       \<and> (\<forall>decoded m. body = Inr decoded \<and> error_detail decoded = Inr m \<longrightarrow>
            IPReputation_get_json_data net ip key = ([m], Returned PNone)
            \<and> IPReputation_query_abuse_database net (LookupStr ip) key = ([m], Returned ResNone)
            \<and> IPReputation_loop net key (ip # items) acc =
                (m # fst (IPReputation_loop net key items acc),
                 snd (IPReputation_loop net key items acc)))"
proof (intro conjI allI impI)
  fix r
  show "snd (IPReputation_query_abuse_database net (LookupStr ip) key) \<noteq> Returned (ResDict r)"
    using IPReputation_get_json_data_401 [of net ip key body, OF assms]
    by (simp split: sum.splits)
next
  fix decoded m
  assume a: "body = Inr decoded \<and> error_detail decoded = Inr m"
  then have fetch: "IPReputation_get_json_data net ip key = ([m], Returned PNone)"
    using IPReputation_get_json_data_401 [of net ip key body, OF assms] by simp
  show "IPReputation_get_json_data net ip key = ([m], Returned PNone)"
    by (rule fetch)
  show "IPReputation_query_abuse_database net (LookupStr ip) key = ([m], Returned ResNone)"
    using IPReputation_no_data_skipped(1) [OF fetch] .
  show "IPReputation_loop net key (ip # items) acc =
          (m # fst (IPReputation_loop net key items acc),
           snd (IPReputation_loop net key items acc))"
    using IPReputation_no_data_skipped(2) [OF fetch] by simp
qed

theorem reputation_unauthorized_reported_witness:
  "abuseipdb ''67.21.32.230'' ''revoked-key'' =
     Response 401 (Inr (abuse_errors ''Authentication failed.'' 401))
   \<and> error_detail (abuse_errors ''Authentication failed.'' 401) = Inr ''Authentication failed.''
   \<and> IPReputation_get_json_data abuseipdb ''67.21.32.230'' ''revoked-key'' =
       ([''Authentication failed.''], Returned PNone)
   \<and> IPReputation_query_abuse_database abuseipdb (LookupStr ''67.21.32.230'') ''revoked-key'' =
       ([''Authentication failed.''], Returned ResNone)
   \<and> (\<forall>r. snd (IPReputation_query_abuse_database abuseipdb (LookupStr ''67.21.32.230'')
                ''revoked-key'') \<noteq> Returned (ResDict r))"
proof -
  have h1: "abuseipdb ''67.21.32.230'' ''revoked-key'' =
              Response 401 (Inr (abuse_errors ''Authentication failed.'' 401))"
    by (simp add: abuseipdb_def)
  have h2: "error_detail (abuse_errors ''Authentication failed.'' 401) =
              Inr ''Authentication failed.''"
    by (simp add: error_detail_def abuse_errors_def json_string_def json_escape_def
        strip_quotes_def)
  show ?thesis
    using h1 h2 reputation_unauthorized_reported [of abuseipdb "''67.21.32.230''" "''revoked-key''"
        "Inr (abuse_errors ''Authentication failed.'' 401)" "[]" "[]", OF h1]
    by blast
qed

text \<open>
  C1, as stated, fails: the service answers a revoked key with HTTP 401, and the process
  is not terminated; the fetch and the lookup both return to their caller.
\<close>

theorem reputation_unauthorized_counterexample:
  "abuseipdb ''67.21.32.233'' ''revoked-key'' =
     Response 401 (Inr (abuse_errors ''Authentication failed.'' 401))
   \<and> \<not> is_fatal (IPReputation_get_json_data abuseipdb ''67.21.32.233'' ''revoked-key'')
   \<and> \<not> is_fatal (IPReputation_query_abuse_database abuseipdb (LookupStr ''67.21.32.233'')
                   ''revoked-key'')
   \<and> IPReputation_query_abuse_database abuseipdb (LookupStr ''67.21.32.233'') ''revoked-key'' =
       ([''Authentication failed.''], Returned ResNone)"
  by (simp add: abuseipdb_def IPReputation_get_json_data_def error_detail_def abuse_errors_def
      json_string_def json_escape_def strip_quotes_def)

section \<open>The abuse level of a confidence score\<close>

text \<open>The four bands of \<^verbatim>\<open>_determine_abuse_level\<close>, with the labels as the code spells them.\<close>

lemma determine_abuse_level_bands:
  "IPReputation_determine_abuse_level score =
     (if score = 0 then PStr ''not malicious''
      else if 0 < score \<and> score \<le> 25 then
        PStr ''likley not malicious but warrants further investigation''
      else if 25 < score \<and> score < 100 then
        PStr ''likley malicious and warrants further investigation''
      else if score = 100 then PStr ''is malicious and warrants additional investigation''
      else PNone)"
  by (simp add: IPReputation_determine_abuse_level_def)

text \<open>
  C2. The classifier has the four bands \<open>0\<close>, \<open>(0, 25]\<close>, \<open>(25, 100)\<close> and \<open>100\<close>, but the
  labels of the two middle bands are spelled \<^verbatim>\<open>likley\<close>: at score 10 and at score 50 the
  code does not return the labels "likely not malicious but warrants further
  investigation" and "likely malicious and warrants further investigation".
\<close>

theorem determine_abuse_level_misspelled:
  "IPReputation_determine_abuse_level 10 =
     PStr ''likley not malicious but warrants further investigation''
   \<and> IPReputation_determine_abuse_level 10 \<noteq>
     PStr ''likely not malicious but warrants further investigation''
   \<and> IPReputation_determine_abuse_level 50 =
     PStr ''likley malicious and warrants further investigation''
   \<and> IPReputation_determine_abuse_level 50 \<noteq>
     PStr ''likely malicious and warrants further investigation''"
  by (simp add: IPReputation_determine_abuse_level_def)

section \<open>A timeout or a connection error during a fetch\<close>

lemma IPGeoLocation_get_json_data_failed:
  assumes "net x = Failed exc m" and "is_ConnectionError exc \<or> is_Timeout exc"
  shows "IPGeoLocation_get_json_data net x =
           ([if is_ConnectionError exc then ''A ConnectionError has occurred.''
             else ''A connection timeout has occurred.''], SysExit 1)"
  using assms by (auto simp: IPGeoLocation_get_json_data_def)

lemma IPReputation_get_json_data_failed:
  assumes "net x key = Failed exc m" and "is_ConnectionError exc \<or> is_Timeout exc"
  shows "IPReputation_get_json_data net x key =
           ([if is_ConnectionError exc then ''A ConnectionError has occurred.''
             else ''A connection timeout has occurred.''], SysExit 1)"
  using assms by (auto simp: IPReputation_get_json_data_def)

lemma MacAddressLookup_get_json_data_failed:
  assumes "net x = Failed exc m"
  shows "MacAddressLookup_get_json_data net d x = ([], Raised (RequestsError exc))"
  using assms by (simp add: MacAddressLookup_get_json_data_def)

lemma ArinWhois_get_whois_json_failed:
  assumes "net x = Failed exc m"
  shows "ArinWhois_get_whois_json net d x =
           ([if is_Timeout exc then ''Request timed out for IP address '' @ x
             else ''An error occurred: '' @ m], Returned (PNone, d))"
  using assms by (simp add: ArinWhois_get_whois_json_def)

text \<open>A fetch that ends the process ends the loop it runs in, wherever its identifier
  stands in the list and whatever has been collected before.\<close>

lemma IPGeoLocation_loop_fatal:
  assumes "is_fatal (IPGeoLocation_get_json_data net x)" and "x \<in> set xs"
  shows "is_fatal (IPGeoLocation_loop net xs acc)"
  using assms(2)
proof (induction xs arbitrary: acc)
  case Nil
  then show ?case by simp
next
  case (Cons p ps)
  show ?case
  proof (cases "p = x")
    case True
    then show ?thesis using assms(1) by (simp add: is_fatal_bind_run)
  next
    case False
    with Cons.prems have "x \<in> set ps" by simp
    note IH = Cons.IH [OF this]
    show ?thesis
      by (cases "IPGeoLocation_get_json_data net p" rule: is_fatal.cases)
        (simp_all add: is_fatal_lift_err_bind IH split: sum.splits)
  qed
qed

lemma IPReputation_loop_fatal:
  assumes "is_fatal (IPReputation_get_json_data net x key)" and "x \<in> set xs"
  shows "is_fatal (IPReputation_loop net key xs acc)"
  using assms(2)
proof (induction xs arbitrary: acc)
  case Nil
  then show ?case by simp
next
  case (Cons p ps)
  show ?case
  proof (cases "p = x")
    case True
    then show ?thesis using assms(1) by (simp add: is_fatal_bind_run)
  next
    case False
    with Cons.prems have "x \<in> set ps" by simp
    note IH = Cons.IH [OF this]
    show ?thesis
      by (cases "IPReputation_get_json_data net p key" rule: is_fatal.cases)
        (simp_all add: is_fatal_lift_err_bind IH split: sum.splits)
  qed
qed

lemma MacAddressLookup_loop_fatal:
  assumes "\<And>d. is_fatal (MacAddressLookup_get_json_data net d x)" and "x \<in> set xs"
  shows "is_fatal (MacAddressLookup_loop net xs acc d)"
  using assms(2)
proof (induction xs arbitrary: acc d)
  case Nil
  then show ?case by simp
next
  case (Cons p ps)
  show ?case
  proof (cases "p = x")
    case True
    then show ?thesis using assms(1) by (simp add: is_fatal_bind_run)
  next
    case False
    with Cons.prems have "x \<in> set ps" by simp
    note IH = Cons.IH [OF this]
    show ?thesis
      by (cases "MacAddressLookup_get_json_data net d p" rule: is_fatal.cases)
        (simp_all add: is_fatal_bind_run IH is_fatal_or_Returned)
  qed
qed

text \<open>
  C3, as the code has it. On a timeout or a connection error of the request, the
  geolocation and the reputation source print a message and call \<^verbatim>\<open>sys.exit(1)\<close>, and the
  vendor source lets the exception leave the lookup: in all three the process ends, for
  a scalar lookup and for a list lookup that holds the identifier at any position, with
  any Records collected before it. Only the registry source reports the error and
  continues: its fetch returns \<^verbatim>\<open>None\<close>, leaves the class attribute as it was, and when the
  readers return, the loop goes on with the identifiers that follow.
\<close>

theorem network_failure_policy:
  assumes "is_ConnectionError exc \<or> is_Timeout exc"
  shows "(gnet x = Failed exc m \<longrightarrow>
            IPGeoLocation_get_json_data gnet x =
              ([if is_ConnectionError exc then ''A ConnectionError has occurred.''
                else ''A connection timeout has occurred.''], SysExit 1)
            \<and> is_fatal (IPGeoLocation_query_geolocation_database gnet (LookupStr x))
            \<and> (x \<in> set xs \<longrightarrow>
                 is_fatal (IPGeoLocation_loop gnet xs acc)
                 \<and> is_fatal (IPGeoLocation_query_geolocation_database gnet (LookupList xs))))
       \<and> (rnet x key = Failed exc m \<longrightarrow>
            IPReputation_get_json_data rnet x key =
              ([if is_ConnectionError exc then ''A ConnectionError has occurred.''
                else ''A connection timeout has occurred.''], SysExit 1)
            \<and> is_fatal (IPReputation_query_abuse_database rnet (LookupStr x) key)
            \<and> (x \<in> set xs \<longrightarrow>
                 is_fatal (IPReputation_loop rnet key xs acc)
                 \<and> is_fatal (IPReputation_query_abuse_database rnet (LookupList xs) key)))
       \<and> (mnet x = Failed exc m \<longrightarrow>
            MacAddressLookup_get_json_data mnet d x = ([], Raised (RequestsError exc))
            \<and> is_fatal (MacAddressLookup_lookup_address_information mnet d (LookupStr x))
            \<and> (x \<in> set xs \<longrightarrow>
                 is_fatal (MacAddressLookup_loop mnet xs acc d)
                 \<and> is_fatal (MacAddressLookup_lookup_address_information mnet d (LookupList xs))))
       \<and> (wnet x = Failed exc m \<longrightarrow>
            ArinWhois_get_whois_json wnet d x =
              ([if is_Timeout exc then ''Request timed out for IP address '' @ x
                else ''An error occurred: '' @ m], Returned (PNone, d))
            \<and> (\<forall>out r. ArinWhois_data_elements x d = (out, Returned r) \<longrightarrow>
                 ArinWhois_loop wnet (x # items) acc d =
                   ((if is_Timeout exc then ''Request timed out for IP address '' @ x
                     else ''An error occurred: '' @ m)
                    # out @ fst (ArinWhois_loop wnet items (acc @ [r]) d),
                    snd (ArinWhois_loop wnet items (acc @ [r]) d))
                 \<and> ArinWhois_query_whois wnet d (LookupList (x # items)) =
                   ((if is_Timeout exc then ''Request timed out for IP address '' @ x
                     else ''An error occurred: '' @ m)
                    # out @ fst (ArinWhois_loop wnet items [r] d),
                    map_outcome (\<lambda>done. (ResList (fst done), snd done))
                      (snd (ArinWhois_loop wnet items [r] d)))))"
proof (intro conjI impI)
  assume g: "gnet x = Failed exc m"
  note fetch = IPGeoLocation_get_json_data_failed [of gnet x exc m, OF g assms]
  show "IPGeoLocation_get_json_data gnet x =
          ([if is_ConnectionError exc then ''A ConnectionError has occurred.''
            else ''A connection timeout has occurred.''], SysExit 1)"
    by (rule fetch)
  show "is_fatal (IPGeoLocation_query_geolocation_database gnet (LookupStr x))"
    by (simp add: fetch)
  have f: "is_fatal (IPGeoLocation_get_json_data gnet x)"
    by (simp add: fetch)
  assume "x \<in> set xs"
  with f show "is_fatal (IPGeoLocation_loop gnet xs acc)"
    and "is_fatal (IPGeoLocation_query_geolocation_database gnet (LookupList xs))"
    by (simp_all add: IPGeoLocation_loop_fatal is_fatal_bind_run)
next
  assume r: "rnet x key = Failed exc m"
  note fetch = IPReputation_get_json_data_failed [of rnet x key exc m, OF r assms]
  show "IPReputation_get_json_data rnet x key =
          ([if is_ConnectionError exc then ''A ConnectionError has occurred.''
            else ''A connection timeout has occurred.''], SysExit 1)"
    by (rule fetch)
  show "is_fatal (IPReputation_query_abuse_database rnet (LookupStr x) key)"
    by (simp add: fetch)
  have f: "is_fatal (IPReputation_get_json_data rnet x key)"
    by (simp add: fetch)
  assume "x \<in> set xs"
  with f show "is_fatal (IPReputation_loop rnet key xs acc)"
    and "is_fatal (IPReputation_query_abuse_database rnet (LookupList xs) key)"
    by (simp_all add: IPReputation_loop_fatal is_fatal_bind_run)
next
  assume v: "mnet x = Failed exc m"
  note fetch = MacAddressLookup_get_json_data_failed [of mnet x exc m, OF v]
  show "MacAddressLookup_get_json_data mnet d x = ([], Raised (RequestsError exc))"
    by (rule fetch)
  show "is_fatal (MacAddressLookup_lookup_address_information mnet d (LookupStr x))"
    by (simp add: fetch)
  have f: "is_fatal (MacAddressLookup_get_json_data mnet d' x)" for d'
    by (simp add: fetch)
  assume mem: "x \<in> set xs"
  have l: "is_fatal (MacAddressLookup_loop mnet xs acc' d)" for acc'
    by (rule MacAddressLookup_loop_fatal [OF f mem])
  show "is_fatal (MacAddressLookup_loop mnet xs acc d)"
    by (rule l)
  show "is_fatal (MacAddressLookup_lookup_address_information mnet d (LookupList xs))"
    by (simp add: l is_fatal_bind_run)
next
  assume w: "wnet x = Failed exc m"
  note fetch = ArinWhois_get_whois_json_failed [of wnet x exc m d, OF w]
  show "ArinWhois_get_whois_json wnet d x =
          ([if is_Timeout exc then ''Request timed out for IP address '' @ x
            else ''An error occurred: '' @ m], Returned (PNone, d))"
    by (rule fetch)
  have loop: "ArinWhois_loop wnet (x # items) acc' d =
            ((if is_Timeout exc then ''Request timed out for IP address '' @ x
              else ''An error occurred: '' @ m)
             # out @ fst (ArinWhois_loop wnet items (acc' @ [r]) d),
             snd (ArinWhois_loop wnet items (acc' @ [r]) d))"
    if "ArinWhois_data_elements x d = (out, Returned r)" for out r acc'
    using that by (simp add: fetch)
  show "\<forall>out r. ArinWhois_data_elements x d = (out, Returned r) \<longrightarrow>
          ArinWhois_loop wnet (x # items) acc d =
            ((if is_Timeout exc then ''Request timed out for IP address '' @ x
              else ''An error occurred: '' @ m)
             # out @ fst (ArinWhois_loop wnet items (acc @ [r]) d),
             snd (ArinWhois_loop wnet items (acc @ [r]) d))
          \<and> ArinWhois_query_whois wnet d (LookupList (x # items)) =
            ((if is_Timeout exc then ''Request timed out for IP address '' @ x
              else ''An error occurred: '' @ m)
             # out @ fst (ArinWhois_loop wnet items [r] d),
             map_outcome (\<lambda>done. (ResList (fst done), snd done))
               (snd (ArinWhois_loop wnet items [r] d)))"
  proof (intro allI impI conjI)
    fix out r
    assume r: "ArinWhois_data_elements x d = (out, Returned r)"
    show "ArinWhois_loop wnet (x # items) acc d =
            ((if is_Timeout exc then ''Request timed out for IP address '' @ x
              else ''An error occurred: '' @ m)
             # out @ fst (ArinWhois_loop wnet items (acc @ [r]) d),
             snd (ArinWhois_loop wnet items (acc @ [r]) d))"
      by (rule loop [OF r])
    show "ArinWhois_query_whois wnet d (LookupList (x # items)) =
            ((if is_Timeout exc then ''Request timed out for IP address '' @ x
              else ''An error occurred: '' @ m)
             # out @ fst (ArinWhois_loop wnet items [r] d),
             map_outcome (\<lambda>done. (ResList (fst done), snd done))
               (snd (ArinWhois_loop wnet items [r] d)))"
      unfolding ArinWhois_query_whois_list loop [OF r, of "[]"] by simp
  qed
qed

theorem network_failure_policy_witness:
  "ip_api ''10.255.255.1'' = Failed ReadTimeout ''Read timed out.''
   \<and> IPGeoLocation_get_json_data ip_api ''10.255.255.1'' =
       ([''A connection timeout has occurred.''], SysExit 1)
   \<and> is_fatal (IPGeoLocation_query_geolocation_database ip_api
        (LookupList [''8.8.8.8'', ''10.255.255.1'']))
   \<and> abuseipdb ''10.255.255.1'' ''valid-key'' = Failed ConnectionError ''Connection refused''
   \<and> IPReputation_get_json_data abuseipdb ''10.255.255.1'' ''valid-key'' =
       ([''A ConnectionError has occurred.''], SysExit 1)
   \<and> is_fatal (IPReputation_query_abuse_database abuseipdb
        (LookupList [''67.21.32.233'', ''10.255.255.1'']) ''valid-key'')
   \<and> maclookup ''ff:ff:ff:ff:ff:ff'' = Failed ConnectTimeout ''Connection timed out.''
   \<and> is_fatal (MacAddressLookup_lookup_address_information maclookup (PDict [])
        (LookupStr ''ff:ff:ff:ff:ff:ff''))
   \<and> is_fatal (MacAddressLookup_lookup_address_information maclookup (PDict [])
        (LookupList [''04:7b:cb:3b:75:94'', ''ff:ff:ff:ff:ff:ff'']))
   \<and> arin ''10.255.255.1'' = Failed ReadTimeout ''Read timed out.''
   \<and> ArinWhois_get_whois_json arin (PDict []) ''10.255.255.1'' =
       ([''Request timed out for IP address 10.255.255.1''], Returned (PNone, PDict []))
   \<and> ArinWhois_loop arin [''10.255.255.1'', ''67.21.32.233''] [] (PDict []) =
       (''Request timed out for IP address 10.255.255.1''
        # [''Registered_organization is not present in JSON data'',
           ''The JSON keys to obtain the network range were invalid.'',
           ''The JSON keys to obtain the CIDR range were invalid.'']
        @ fst (ArinWhois_loop arin [''67.21.32.233'']
                [[(''ip_address'', PStr ''10.255.255.1''), (''organization'', PNone),
                  (''network'', PNone), (''cidr'', PNone)]] (PDict [])),
        snd (ArinWhois_loop arin [''67.21.32.233'']
               [[(''ip_address'', PStr ''10.255.255.1''), (''organization'', PNone),
                 (''network'', PNone), (''cidr'', PNone)]] (PDict [])))
   \<and> ArinWhois_query_whois arin (PDict []) (LookupList [''10.255.255.1'', ''67.21.32.233'']) =
       ([''Request timed out for IP address 10.255.255.1'',
         ''Registered_organization is not present in JSON data'',
         ''The JSON keys to obtain the network range were invalid.'',
         ''The JSON keys to obtain the CIDR range were invalid.''],
        Returned (ResList
          [[(''ip_address'', PStr ''10.255.255.1''), (''organization'', PNone),
            (''network'', PNone), (''cidr'', PNone)],
           [(''ip_address'', PStr ''67.21.32.233''),
            (''organization'', PStr ''Example Hosting''),
            (''network'', PStr ''67.21.32.0-67.21.47.255''),
            (''cidr'', PStr ''67.21.32.0/20'')]], arin_net))"
proof -
  have t1: "is_ConnectionError ReadTimeout \<or> is_Timeout ReadTimeout"
    and t2: "is_ConnectionError ConnectionError \<or> is_Timeout ConnectionError"
    and t3: "is_ConnectionError ConnectTimeout \<or> is_Timeout ConnectTimeout"
    by simp_all
  have g: "ip_api ''10.255.255.1'' = Failed ReadTimeout ''Read timed out.''"
    by (simp add: ip_api_def)
  have r: "abuseipdb ''10.255.255.1'' ''valid-key'' = Failed ConnectionError ''Connection refused''"
    by (simp add: abuseipdb_def)
  have v: "maclookup ''ff:ff:ff:ff:ff:ff'' = Failed ConnectTimeout ''Connection timed out.''"
    by (simp add: maclookup_def)
  have w: "arin ''10.255.255.1'' = Failed ReadTimeout ''Read timed out.''"
    by (simp add: arin_def)
  have m1: "''10.255.255.1'' \<in> set [''8.8.8.8'', ''10.255.255.1'']"
    and m2: "''10.255.255.1'' \<in> set [''67.21.32.233'', ''10.255.255.1'']"
    and m3: "''ff:ff:ff:ff:ff:ff'' \<in> set [''04:7b:cb:3b:75:94'', ''ff:ff:ff:ff:ff:ff'']"
    by simp_all
  note a = network_failure_policy [OF t1, where gnet = ip_api and x = "''10.255.255.1''"
      and m = "''Read timed out.''" and xs = "[''8.8.8.8'', ''10.255.255.1'']" and acc = "[]",
      THEN conjunct1, THEN mp, OF g]
  note b = network_failure_policy [OF t2, where rnet = abuseipdb and x = "''10.255.255.1''"
      and m = "''Connection refused''" and key = "''valid-key''"
      and xs = "[''67.21.32.233'', ''10.255.255.1'']" and acc = "[]",
      THEN conjunct2, THEN conjunct1, THEN mp, OF r]
  note c = network_failure_policy [OF t3, where mnet = maclookup
      and x = "''ff:ff:ff:ff:ff:ff''" and m = "''Connection timed out.''" and d = "PDict []"
      and xs = "[''04:7b:cb:3b:75:94'', ''ff:ff:ff:ff:ff:ff'']" and acc = "[]",
      THEN conjunct2, THEN conjunct2, THEN conjunct1, THEN mp, OF v]
  note e = network_failure_policy [OF t1, where wnet = arin and x = "''10.255.255.1''"
      and m = "''Read timed out.''" and items = "[''67.21.32.233'']" and acc = "[]"
      and d = "PDict []",
      THEN conjunct2, THEN conjunct2, THEN conjunct2, THEN mp, OF w]
  have t: "is_Timeout ReadTimeout" by simp
  have A: "IPGeoLocation_get_json_data ip_api ''10.255.255.1'' =
       ([''A connection timeout has occurred.''], SysExit 1)"
    using a [THEN conjunct1] by simp
  have B: "is_fatal (IPGeoLocation_query_geolocation_database ip_api
        (LookupList [''8.8.8.8'', ''10.255.255.1'']))"
    using a [THEN conjunct2, THEN conjunct2, THEN mp, OF m1, THEN conjunct2] .
  have C: "IPReputation_get_json_data abuseipdb ''10.255.255.1'' ''valid-key'' =
       ([''A ConnectionError has occurred.''], SysExit 1)"
    using b [THEN conjunct1] by simp
  have D: "is_fatal (IPReputation_query_abuse_database abuseipdb
        (LookupList [''67.21.32.233'', ''10.255.255.1'']) ''valid-key'')"
    using b [THEN conjunct2, THEN conjunct2, THEN mp, OF m2, THEN conjunct2] .
  have E: "is_fatal (MacAddressLookup_lookup_address_information maclookup (PDict [])
        (LookupStr ''ff:ff:ff:ff:ff:ff''))"
    using c [THEN conjunct2, THEN conjunct1] .
  have F: "is_fatal (MacAddressLookup_lookup_address_information maclookup (PDict [])
        (LookupList [''04:7b:cb:3b:75:94'', ''ff:ff:ff:ff:ff:ff'']))"
    using c [THEN conjunct2, THEN conjunct2, THEN mp, OF m3, THEN conjunct2] .
  have G: "ArinWhois_get_whois_json arin (PDict []) ''10.255.255.1'' =
       ([''Request timed out for IP address 10.255.255.1''], Returned (PNone, PDict []))"
    using e [THEN conjunct1] by simp
  have L: "ArinWhois_loop arin [''10.255.255.1'', ''67.21.32.233''] [] (PDict []) =
       (''Request timed out for IP address 10.255.255.1''
        # [''Registered_organization is not present in JSON data'',
           ''The JSON keys to obtain the network range were invalid.'',
           ''The JSON keys to obtain the CIDR range were invalid.'']
        @ fst (ArinWhois_loop arin [''67.21.32.233'']
                [[(''ip_address'', PStr ''10.255.255.1''), (''organization'', PNone),
                  (''network'', PNone), (''cidr'', PNone)]] (PDict [])),
        snd (ArinWhois_loop arin [''67.21.32.233'']
               [[(''ip_address'', PStr ''10.255.255.1''), (''organization'', PNone),
                 (''network'', PNone), (''cidr'', PNone)]] (PDict [])))"
    using e [THEN conjunct2, THEN spec, THEN spec, THEN mp, OF ArinWhois_data_elements_empty,
        THEN conjunct1]
    unfolding if_P [OF t] by simp
  have rest: "ArinWhois_loop arin [''67.21.32.233'']
      [[(''ip_address'', PStr ''10.255.255.1''), (''organization'', PNone),
        (''network'', PNone), (''cidr'', PNone)]] (PDict []) =
      ([], Returned
        ([[(''ip_address'', PStr ''10.255.255.1''), (''organization'', PNone),
           (''network'', PNone), (''cidr'', PNone)],
          [(''ip_address'', PStr ''67.21.32.233''),
           (''organization'', PStr ''Example Hosting''),
           (''network'', PStr ''67.21.32.0-67.21.47.255''),
           (''cidr'', PStr ''67.21.32.0/20'')]], arin_net))"
    by (simp add: example_services readers)
  have Q: "ArinWhois_query_whois arin (PDict []) (LookupList [''10.255.255.1'', ''67.21.32.233'']) =
       ([''Request timed out for IP address 10.255.255.1'',
         ''Registered_organization is not present in JSON data'',
         ''The JSON keys to obtain the network range were invalid.'',
         ''The JSON keys to obtain the CIDR range were invalid.''],
        Returned (ResList
          [[(''ip_address'', PStr ''10.255.255.1''), (''organization'', PNone),
            (''network'', PNone), (''cidr'', PNone)],
           [(''ip_address'', PStr ''67.21.32.233''),
            (''organization'', PStr ''Example Hosting''),
            (''network'', PStr ''67.21.32.0-67.21.47.255''),
            (''cidr'', PStr ''67.21.32.0/20'')]], arin_net))"
    using e [THEN conjunct2, THEN spec, THEN spec, THEN mp, OF ArinWhois_data_elements_empty,
        THEN conjunct2]
    unfolding if_P [OF t] rest by simp
  show ?thesis
    by (intro conjI g A B r C D v E F w G L Q)
qed

text \<open>
  C3, as stated, fails for the reputation source: a refused connection ends the process
  with \<^verbatim>\<open>sys.exit(1)\<close>, and the identifier that follows in the list is never looked up.
\<close>

theorem network_failure_policy_counterexample:
  "abuseipdb ''10.255.255.1'' ''valid-key'' = Failed ConnectionError ''Connection refused''
   \<and> IPReputation_query_abuse_database abuseipdb
        (LookupList [''10.255.255.1'', ''67.21.32.233'']) ''valid-key'' =
       ([''A ConnectionError has occurred.''], SysExit 1)
   \<and> is_fatal (IPReputation_query_abuse_database abuseipdb
        (LookupList [''10.255.255.1'', ''67.21.32.233'']) ''valid-key'')"
  by (simp add: abuseipdb_def IPReputation_get_json_data_def)

section \<open>The Records of a list lookup\<close>

lemma ArinWhois_loop_keys:
  "ArinWhois_loop net xs acc d = (out, Returned (rs, d')) \<Longrightarrow>
   map (\<lambda>r. map_of r ''ip_address'') rs =
     map (\<lambda>r. map_of r ''ip_address'') acc @ map (\<lambda>x. Some (PStr x)) xs"
proof (induction xs arbitrary: acc d out)
  case Nil
  then show ?case by simp
next
  case (Cons x xs)
  from Cons.prems obtain o1 fetched o2 r o3 where
    r: "ArinWhois_data_elements x (snd fetched) = (o2, Returned r)"
    and rest: "ArinWhois_loop net xs (acc @ [r]) (snd fetched) = (o3, Returned (rs, d'))"
    by (auto simp: bind_run_eq_Returned)
  from Cons.IH [OF rest] ArinWhois_data_elements_key [OF r] show ?case by simp
qed

lemma MacAddressLookup_loop_keys:
  "MacAddressLookup_loop net xs acc d = (out, Returned (rs, d')) \<Longrightarrow>
   map (\<lambda>r. map_of r ''mac_address'') rs =
     map (\<lambda>r. map_of r ''mac_address'') acc @ map (\<lambda>x. Some (PStr x)) xs"
proof (induction xs arbitrary: acc d out)
  case Nil
  then show ?case by simp
next
  case (Cons x xs)
  from Cons.prems obtain o1 fetched o2 r o3 where
    r: "MacAddressLookup_data_elements x (snd fetched) = (o2, Returned r)"
    and rest: "MacAddressLookup_loop net xs (acc @ [r]) (snd fetched) = (o3, Returned (rs, d'))"
    by (auto simp: bind_run_eq_Returned)
  from Cons.IH [OF rest] MacAddressLookup_data_elements_key [OF r] show ?case by simp
qed

lemma fetched_value_Returned [simp]: "fetched_value (out, Returned v) = v"
  by (simp add: fetched_value_def)

lemma IPReputation_loop_records:
  "IPReputation_loop net key xs acc = (out, Returned rs) \<Longrightarrow>
   map Inr rs =
     map Inr acc @
     map (\<lambda>x. IPReputation_decoded_json (fetched_value (IPReputation_get_json_data net x key)))
       (filter (\<lambda>x. truthy (fetched_value (IPReputation_get_json_data net x key))) xs)"
proof (induction xs arbitrary: acc out)
  case Nil
  then show ?case by simp
next
  case (Cons x xs)
  from Cons.prems obtain o1 data o2 where
    fetch: "IPReputation_get_json_data net x key = (o1, Returned data)"
    and body: "(if truthy data then
         bind_run (lift_err (IPReputation_decoded_json data)) (\<lambda>decoded.
           IPReputation_loop net key xs (acc @ [decoded]))
       else IPReputation_loop net key xs acc) = (o2, Returned rs)"
    by (auto simp: bind_run_eq_Returned)
  show ?case
  proof (cases "truthy data")
    case False
    with body have "IPReputation_loop net key xs acc = (o2, Returned rs)" by simp
    from Cons.IH [OF this] False fetch show ?thesis by simp
  next
    case True
    with body obtain decoded o3 where
      d: "IPReputation_decoded_json data = Inr decoded"
      and rest: "IPReputation_loop net key xs (acc @ [decoded]) = (o3, Returned rs)"
      by (cases "IPReputation_decoded_json data") (auto simp: bind_run_eq_Returned)
    from Cons.IH [OF rest] True fetch d show ?thesis by simp
  qed
qed

lemma IPGeoLocation_loop_records:
  "IPGeoLocation_loop net xs acc = (out, Returned rs) \<Longrightarrow>
   map Inr rs =
     map Inr acc @
     map (\<lambda>x. IPGeoLocation_decoded_json (fetched_value (IPGeoLocation_get_json_data net x)))
       (filter (\<lambda>x. truthy (fetched_value (IPGeoLocation_get_json_data net x))) xs)"
proof (induction xs arbitrary: acc out)
  case Nil
  then show ?case by simp
next
  case (Cons x xs)
  from Cons.prems obtain o1 data o2 where
    fetch: "IPGeoLocation_get_json_data net x = (o1, Returned data)"
    and body: "(if truthy data then
         bind_run (lift_err (IPGeoLocation_decoded_json data)) (\<lambda>decoded.
           IPGeoLocation_loop net xs (acc @ [decoded]))
       else IPGeoLocation_loop net xs acc) = (o2, Returned rs)"
    by (auto simp: bind_run_eq_Returned)
  show ?case
  proof (cases "truthy data")
    case False
    with body have "IPGeoLocation_loop net xs acc = (o2, Returned rs)" by simp
    from Cons.IH [OF this] False fetch show ?thesis by simp
  next
    case True
    with body obtain decoded o3 where
      d: "IPGeoLocation_decoded_json data = Inr decoded"
      and rest: "IPGeoLocation_loop net xs (acc @ [decoded]) = (o3, Returned rs)"
      by (cases "IPGeoLocation_decoded_json data") (auto simp: bind_run_eq_Returned)
    from Cons.IH [OF rest] True fetch d show ?thesis by simp
  qed
qed

text \<open>
  C4, as the code has it. A list lookup of the registry or of the vendor component that
  returns gives exactly one Record per input identifier, in the order of the input, each
  under the key \<^verbatim>\<open>ip_address\<close> (\<^verbatim>\<open>mac_address\<close>) of its identifier. A list lookup of the
  reputation or of the geolocation component that returns gives the Records extracted
  for the identifiers whose fetch returned data, in the order of the input; an identifier
  whose fetch returned no data has no Record.
\<close>

theorem list_lookup_records:
  "(ArinWhois_query_whois wnet d (LookupList xs) = (out, Returned (res, d')) \<longrightarrow>
      (\<exists>rs. res = ResList rs
         \<and> map (\<lambda>r. map_of r ''ip_address'') rs = map (\<lambda>x. Some (PStr x)) xs))
   \<and> (MacAddressLookup_lookup_address_information mnet d (LookupList xs) =
        (out, Returned (res, d')) \<longrightarrow>
      (\<exists>rs. res = ResList rs
         \<and> map (\<lambda>r. map_of r ''mac_address'') rs = map (\<lambda>x. Some (PStr x)) xs))
   \<and> (IPReputation_query_abuse_database rnet (LookupList xs) key = (out, Returned res) \<longrightarrow>
      (\<exists>rs. res = ResList rs
         \<and> map Inr rs =
           map (\<lambda>x. IPReputation_decoded_json
                      (fetched_value (IPReputation_get_json_data rnet x key)))
             (filter (\<lambda>x. truthy (fetched_value (IPReputation_get_json_data rnet x key))) xs)))
   \<and> (IPGeoLocation_query_geolocation_database gnet (LookupList xs) = (out, Returned res) \<longrightarrow>
      (\<exists>rs. res = ResList rs
         \<and> map Inr rs =
           map (\<lambda>x. IPGeoLocation_decoded_json
                      (fetched_value (IPGeoLocation_get_json_data gnet x)))
             (filter (\<lambda>x. truthy (fetched_value (IPGeoLocation_get_json_data gnet x))) xs)))"
proof (intro conjI impI)
  assume "ArinWhois_query_whois wnet d (LookupList xs) = (out, Returned (res, d'))"
  then obtain o1 rs where "ArinWhois_loop wnet xs [] d = (o1, Returned (rs, d'))" "res = ResList rs"
    by (auto simp: bind_run_eq_Returned)
  then show "\<exists>rs. res = ResList rs
      \<and> map (\<lambda>r. map_of r ''ip_address'') rs = map (\<lambda>x. Some (PStr x)) xs"
    using ArinWhois_loop_keys [of wnet xs "[]" d o1 rs d'] by simp
next
  assume "MacAddressLookup_lookup_address_information mnet d (LookupList xs) =
            (out, Returned (res, d'))"
  then obtain o1 rs where "MacAddressLookup_loop mnet xs [] d = (o1, Returned (rs, d'))"
    "res = ResList rs"
    by (auto simp: bind_run_eq_Returned)
  then show "\<exists>rs. res = ResList rs
      \<and> map (\<lambda>r. map_of r ''mac_address'') rs = map (\<lambda>x. Some (PStr x)) xs"
    using MacAddressLookup_loop_keys [of mnet xs "[]" d o1 rs d'] by simp
next
  assume "IPReputation_query_abuse_database rnet (LookupList xs) key = (out, Returned res)"
  then obtain o1 rs where "IPReputation_loop rnet key xs [] = (o1, Returned rs)" "res = ResList rs"
    by (auto simp: bind_run_eq_Returned)
  then show "\<exists>rs. res = ResList rs
      \<and> map Inr rs =
        map (\<lambda>x. IPReputation_decoded_json
                   (fetched_value (IPReputation_get_json_data rnet x key)))
          (filter (\<lambda>x. truthy (fetched_value (IPReputation_get_json_data rnet x key))) xs)"
    using IPReputation_loop_records [of rnet key xs "[]" o1 rs] by simp
next
  assume "IPGeoLocation_query_geolocation_database gnet (LookupList xs) = (out, Returned res)"
  then obtain o1 rs where "IPGeoLocation_loop gnet xs [] = (o1, Returned rs)" "res = ResList rs"
    by (auto simp: bind_run_eq_Returned)
  then show "\<exists>rs. res = ResList rs
      \<and> map Inr rs =
        map (\<lambda>x. IPGeoLocation_decoded_json
                   (fetched_value (IPGeoLocation_get_json_data gnet x)))
          (filter (\<lambda>x. truthy (fetched_value (IPGeoLocation_get_json_data gnet x))) xs)"
    using IPGeoLocation_loop_records [of gnet xs "[]" o1 rs] by simp
qed

theorem list_lookup_records_witness:
  "(\<exists>out rs d'.
      ArinWhois_query_whois arin (PDict []) (LookupList [''67.21.32.233'', ''23.1.2.3'']) =
        (out, Returned (ResList rs, d'))
      \<and> map (\<lambda>r. map_of r ''ip_address'') rs =
          [Some (PStr ''67.21.32.233''), Some (PStr ''23.1.2.3'')])
   \<and> (\<exists>out rs d'.
      MacAddressLookup_lookup_address_information maclookup (PDict [])
          (LookupList [''da:12:34:56:78:9a'', ''00:11:22:33:44:55'']) =
        (out, Returned (ResList rs, d'))
      \<and> map (\<lambda>r. map_of r ''mac_address'') rs =
          [Some (PStr ''da:12:34:56:78:9a''), Some (PStr ''00:11:22:33:44:55'')])
   \<and> (\<exists>out rs.
      IPReputation_query_abuse_database abuseipdb (LookupList [''not-an-ip'', ''67.21.32.233''])
          ''valid-key'' = (out, Returned (ResList rs))
      \<and> map Inr rs = [IPReputation_decoded_json abuse_report])
   \<and> (\<exists>out rs.
      IPGeoLocation_query_geolocation_database ip_api (LookupList [''8.8.8.8'', ''not-an-address'']) =
        (out, Returned (ResList rs))
      \<and> map Inr rs = [IPGeoLocation_decoded_json geo_success])"
proof -
  obtain out1 res1 d1 where w:
    "ArinWhois_query_whois arin (PDict []) (LookupList [''67.21.32.233'', ''23.1.2.3'']) =
       (out1, Returned (res1, d1))"
    by (simp add: example_services readers)
  obtain out2 res2 d2 where v:
    "MacAddressLookup_lookup_address_information maclookup (PDict [])
       (LookupList [''da:12:34:56:78:9a'', ''00:11:22:33:44:55'']) = (out2, Returned (res2, d2))"
    by (simp add: example_services readers)
  have r1: "IPReputation_get_json_data abuseipdb ''not-an-ip'' ''valid-key'' =
      ([''The ip address must be a valid IPv4 or IPv6 address.''], Returned PNone)"
    by (simp add: example_services readers text_functions)
  have r2: "IPReputation_get_json_data abuseipdb ''67.21.32.233'' ''valid-key'' =
      ([], Returned abuse_report)"
    by (simp add: abuseipdb_def IPReputation_get_json_data_def)
  obtain rec1 where r3: "IPReputation_decoded_json abuse_report = Inr rec1"
    by (simp add: example_services readers text_functions)
  have r4: "truthy abuse_report"
    by (simp add: abuse_report_def)
  have r: "IPReputation_query_abuse_database abuseipdb (LookupList [''not-an-ip'', ''67.21.32.233''])
      ''valid-key'' =
      ([''The ip address must be a valid IPv4 or IPv6 address.''], Returned (ResList [rec1]))"
    by (simp add: r1 r2 r3 r4)
  have g1: "IPGeoLocation_get_json_data ip_api ''8.8.8.8'' = ([], Returned geo_success)"
    by (simp add: example_services IPGeoLocation_get_json_data_def)
  have g2: "IPGeoLocation_get_json_data ip_api ''not-an-address'' =
      ([''The query failed. Please review your input data for not-an-address''], Returned PNone)"
    by (simp add: example_services IPGeoLocation_get_json_data_def)
  obtain rec2 where g3: "IPGeoLocation_decoded_json geo_success = Inr rec2"
    by (simp add: example_services readers text_functions)
  have g4: "truthy geo_success"
    by (simp add: geo_success_def)
  have g: "IPGeoLocation_query_geolocation_database ip_api
      (LookupList [''8.8.8.8'', ''not-an-address'']) =
      ([''The query failed. Please review your input data for not-an-address''],
       Returned (ResList [rec2]))"
    by (simp add: g1 g2 g3 g4)
  note t = list_lookup_records [where wnet = arin and d = "PDict []"
      and xs = "[''67.21.32.233'', ''23.1.2.3'']" and out = out1 and res = res1 and d' = d1]
  note u = list_lookup_records [where mnet = maclookup and d = "PDict []"
      and xs = "[''da:12:34:56:78:9a'', ''00:11:22:33:44:55'']" and out = out2 and res = res2
      and d' = d2]
  note p = list_lookup_records [where rnet = abuseipdb and key = "''valid-key''"
      and xs = "[''not-an-ip'', ''67.21.32.233'']"
      and out = "[''The ip address must be a valid IPv4 or IPv6 address.'']"
      and res = "ResList [rec1]"]
  note q = list_lookup_records [where gnet = ip_api and xs = "[''8.8.8.8'', ''not-an-address'']"
      and out = "[''The query failed. Please review your input data for not-an-address'']"
      and res = "ResList [rec2]"]
  have a: "\<exists>out rs d'.
      ArinWhois_query_whois arin (PDict []) (LookupList [''67.21.32.233'', ''23.1.2.3'']) =
        (out, Returned (ResList rs, d'))
      \<and> map (\<lambda>r. map_of r ''ip_address'') rs =
          [Some (PStr ''67.21.32.233''), Some (PStr ''23.1.2.3'')]"
    using w t by auto
  have b: "\<exists>out rs d'.
      MacAddressLookup_lookup_address_information maclookup (PDict [])
          (LookupList [''da:12:34:56:78:9a'', ''00:11:22:33:44:55'']) =
        (out, Returned (ResList rs, d'))
      \<and> map (\<lambda>r. map_of r ''mac_address'') rs =
          [Some (PStr ''da:12:34:56:78:9a''), Some (PStr ''00:11:22:33:44:55'')]"
    using v u by auto
  have c: "\<exists>out rs.
      IPReputation_query_abuse_database abuseipdb (LookupList [''not-an-ip'', ''67.21.32.233''])
          ''valid-key'' = (out, Returned (ResList rs))
      \<and> map Inr rs = [IPReputation_decoded_json abuse_report]"
    using r p r1 r2 r3 r4 by auto
  have d: "\<exists>out rs.
      IPGeoLocation_query_geolocation_database ip_api (LookupList [''8.8.8.8'', ''not-an-address'']) =
        (out, Returned (ResList rs))
      \<and> map Inr rs = [IPGeoLocation_decoded_json geo_success]"
    using g q g1 g2 g3 g4 by auto
  from a b c d show ?thesis by blast
qed

text \<open>
  C4, as stated, fails: the reputation service rejects the first of two identifiers with
  HTTP 422, and the list lookup returns one Record for the two identifiers.
\<close>

theorem list_lookup_records_counterexample:
  "IPReputation_query_abuse_database abuseipdb (LookupList [''not-an-ip'', ''67.21.32.233''])
     ''valid-key'' =
     ([''The ip address must be a valid IPv4 or IPv6 address.''],
      Returned (ResList
        [[(''ip_address'', PStr ''67.21.32.233''),
          (''domain_name'', PStr ''example.com''),
          (''host_name'', PStr ''[]''),
          (''usage_type'', PStr ''Data Center/Web Hosting/Transit''),
          (''isp_name'', PStr ''Example Hosting''),
          (''country_code'', PStr ''US''),
          (''confidence_of_abuse'', PStr ''10''),
          (''level_of_abuse'',
           PStr ''likley not malicious but warrants further investigation''),
          (''white_listed'', PStr ''false''),
          (''tor_node'', PStr ''false''),
          (''number_of_times_reported'', PStr ''3''),
          (''date_last_reported'', PStr ''2024-07-01T10:00:00+00:00'')]]))"
  by (simp add: example_services readers text_functions)

section \<open>The response an extraction reads\<close>

text \<open>
  C5. In a list lookup of the registry source, the fetch of the second identifier is
  answered with HTTP 404 and yields no data, yet the Record built for that identifier
  holds the organization, the network range and the CIDR range of the first identifier's
  response: the readers read the class attribute, which still holds the earlier response.
  The vendor source does the same after an answer with HTTP 503.
\<close>

theorem registry_record_from_earlier_response:
  "ArinWhois_get_whois_json arin arin_net ''10.0.0.1'' = ([], Returned (PNone, arin_net))
   \<and> ArinWhois_query_whois arin (PDict []) (LookupList [''67.21.32.233'', ''10.0.0.1'']) =
       ([], Returned (ResList
          [[(''ip_address'', PStr ''67.21.32.233''),
            (''organization'', PStr ''Example Hosting''),
            (''network'', PStr ''67.21.32.0-67.21.47.255''),
            (''cidr'', PStr ''67.21.32.0/20'')],
           [(''ip_address'', PStr ''10.0.0.1''),
            (''organization'', PStr ''Example Hosting''),
            (''network'', PStr ''67.21.32.0-67.21.47.255''),
            (''cidr'', PStr ''67.21.32.0/20'')]], arin_net))
   \<and> MacAddressLookup_get_json_data maclookup mac_vendor ''a4:5e:60:00:00:01'' =
       ([], Returned (PNone, mac_vendor))
   \<and> MacAddressLookup_lookup_address_information maclookup (PDict [])
        (LookupList [''04:7b:cb:3b:75:94'', ''a4:5e:60:00:00:01'']) =
       ([], Returned (ResList
          [[(''mac_address'', PStr ''04:7b:cb:3b:75:94''),
            (''registered_organization'',
             PStr ''Universal Global Scientific Industrial Co., Ltd.''),
            (''organization_address'', PStr ''141, Lane 351, Taiping Road, Nantou 54261''),
            (''country'', PStr ''TW'')],
           [(''mac_address'', PStr ''a4:5e:60:00:00:01''),
            (''registered_organization'',
             PStr ''Universal Global Scientific Industrial Co., Ltd.''),
            (''organization_address'', PStr ''141, Lane 351, Taiping Road, Nantou 54261''),
            (''country'', PStr ''TW'')]], mac_vendor))"
  by (simp add: example_services readers)

section \<open>A key that is missing from a response\<close>

subsection \<open>The registry readers\<close>









subsection \<open>The vendor readers\<close>










section \<open>The result of a scalar lookup\<close>

lemma IPReputation_decoded_json_key:
  "IPReputation_decoded_json data = Inr r \<Longrightarrow> \<exists>s. map_of r ''ip_address'' = Some (PStr s)"
  unfolding IPReputation_decoded_json_def bind_err_eq_Inr
  by (elim exE conjE) auto

lemma IPGeoLocation_decoded_json_key:
  "IPGeoLocation_decoded_json data = Inr r \<Longrightarrow> \<exists>s. map_of r ''ip_address'' = Some (PStr s)"
  unfolding IPGeoLocation_decoded_json_def bind_err_eq_Inr
  by (elim exE conjE) auto

text \<open>
  C7, as the code has it. For a scalar input, the reputation and the geolocation component
  return \<^verbatim>\<open>None\<close> when the fetch returned no data, and when it returned data and extraction
  succeeds they return the extracted Record, which holds the key \<^verbatim>\<open>ip_address\<close>. The
  registry and the vendor component never test what the fetch returned: whenever they
  return, the result is a single Record with the input identifier under \<^verbatim>\<open>ip_address\<close>
  (\<^verbatim>\<open>mac_address\<close>), also when the fetch produced no data; on a class attribute that is
  still empty, every other field of that Record is \<^verbatim>\<open>None\<close>.
\<close>

theorem scalar_lookup_result:
  "(IPReputation_get_json_data rnet x key = (out, Returned data) \<longrightarrow>
      (\<not> truthy data \<longrightarrow>
         IPReputation_query_abuse_database rnet (LookupStr x) key = (out, Returned ResNone))
      \<and> (truthy data \<and> IPReputation_decoded_json data = Inr r \<longrightarrow>
         IPReputation_query_abuse_database rnet (LookupStr x) key = (out, Returned (ResDict r))
         \<and> (\<exists>s. map_of r ''ip_address'' = Some (PStr s))))
   \<and> (IPGeoLocation_get_json_data gnet x = (out, Returned data) \<longrightarrow>
      (\<not> truthy data \<longrightarrow>
         IPGeoLocation_query_geolocation_database gnet (LookupStr x) = (out, Returned ResNone))
      \<and> (truthy data \<and> IPGeoLocation_decoded_json data = Inr r \<longrightarrow>
         IPGeoLocation_query_geolocation_database gnet (LookupStr x) = (out, Returned (ResDict r))
         \<and> (\<exists>s. map_of r ''ip_address'' = Some (PStr s))))
   \<and> (ArinWhois_query_whois wnet old (LookupStr x) = (out, Returned (res, new)) \<longrightarrow>
      (\<exists>r. res = ResDict r \<and> map_of r ''ip_address'' = Some (PStr x)))
   \<and> (wnet x = Response code body \<and> code \<noteq> 200 \<longrightarrow>
      ArinWhois_get_whois_json wnet (PDict []) x = ([], Returned (PNone, PDict []))
      \<and> ArinWhois_query_whois wnet (PDict []) (LookupStr x) =
        ([''Registered_organization is not present in JSON data'',
          ''The JSON keys to obtain the network range were invalid.'',
          ''The JSON keys to obtain the CIDR range were invalid.''],
         Returned (ResDict [(''ip_address'', PStr x), (''organization'', PNone),
                            (''network'', PNone), (''cidr'', PNone)], PDict [])))
   \<and> (MacAddressLookup_lookup_address_information vnet old (LookupStr x) =
        (out, Returned (res, new)) \<longrightarrow>
      (\<exists>r. res = ResDict r \<and> map_of r ''mac_address'' = Some (PStr x)))
   \<and> (vnet x = Response code body \<and> code \<notin> {200, 400, 401, 429} \<longrightarrow>
      MacAddressLookup_get_json_data vnet (PDict []) x = ([], Returned (PNone, PDict []))
      \<and> MacAddressLookup_lookup_address_information vnet (PDict []) (LookupStr x) =
        ([''Registered organization is not present in JSON data'',
          ''Registered organization'' @ [CHR 0x27] @ ''s address is not present in JSON data'',
          ''Registered organization'' @ [CHR 0x27] @ ''s country is not present in JSON data''],
         Returned (ResDict [(''mac_address'', PStr x), (''registered_organization'', PNone),
                            (''organization_address'', PNone), (''country'', PNone)],
                   PDict [])))"
proof (intro conjI impI)
  assume "IPReputation_get_json_data rnet x key = (out, Returned data)" "\<not> truthy data"
  then show "IPReputation_query_abuse_database rnet (LookupStr x) key = (out, Returned ResNone)"
    by simp
next
  assume f: "IPReputation_get_json_data rnet x key = (out, Returned data)"
    and d: "truthy data \<and> IPReputation_decoded_json data = Inr r"
  from f d show "IPReputation_query_abuse_database rnet (LookupStr x) key =
      (out, Returned (ResDict r))"
    by simp
  from d show "\<exists>s. map_of r ''ip_address'' = Some (PStr s)"
    using IPReputation_decoded_json_key by blast
next
  assume "IPGeoLocation_get_json_data gnet x = (out, Returned data)" "\<not> truthy data"
  then show "IPGeoLocation_query_geolocation_database gnet (LookupStr x) = (out, Returned ResNone)"
    by simp
next
  assume f: "IPGeoLocation_get_json_data gnet x = (out, Returned data)"
    and d: "truthy data \<and> IPGeoLocation_decoded_json data = Inr r"
  from f d show "IPGeoLocation_query_geolocation_database gnet (LookupStr x) =
      (out, Returned (ResDict r))"
    by simp
  from d show "\<exists>s. map_of r ''ip_address'' = Some (PStr s)"
    using IPGeoLocation_decoded_json_key by blast
next
  assume "ArinWhois_query_whois wnet old (LookupStr x) = (out, Returned (res, new))"
  then obtain o2 fetched r where
    "ArinWhois_data_elements x (snd fetched) = (o2, Returned r)" "res = ResDict r"
    by (auto simp: bind_run_eq_Returned)
  then show "\<exists>r. res = ResDict r \<and> map_of r ''ip_address'' = Some (PStr x)"
    using ArinWhois_data_elements_key by blast
next
  assume a: "wnet x = Response code body \<and> code \<noteq> 200"
  then show f: "ArinWhois_get_whois_json wnet (PDict []) x = ([], Returned (PNone, PDict []))"
    by (simp add: ArinWhois_get_whois_json_def)
  show "ArinWhois_query_whois wnet (PDict []) (LookupStr x) =
        ([''Registered_organization is not present in JSON data'',
          ''The JSON keys to obtain the network range were invalid.'',
          ''The JSON keys to obtain the CIDR range were invalid.''],
         Returned (ResDict [(''ip_address'', PStr x), (''organization'', PNone),
                            (''network'', PNone), (''cidr'', PNone)], PDict []))"
    by (simp add: f ArinWhois_data_elements_empty)
next
  assume "MacAddressLookup_lookup_address_information vnet old (LookupStr x) =
        (out, Returned (res, new))"
  then obtain o2 fetched r where
    "MacAddressLookup_data_elements x (snd fetched) = (o2, Returned r)" "res = ResDict r"
    by (auto simp: bind_run_eq_Returned)
  then show "\<exists>r. res = ResDict r \<and> map_of r ''mac_address'' = Some (PStr x)"
    using MacAddressLookup_data_elements_key by blast
next
  assume a: "vnet x = Response code body \<and> code \<notin> {200, 400, 401, 429}"
  then show f: "MacAddressLookup_get_json_data vnet (PDict []) x =
      ([], Returned (PNone, PDict []))"
    by (simp add: MacAddressLookup_get_json_data_def)
  show "MacAddressLookup_lookup_address_information vnet (PDict []) (LookupStr x) =
        ([''Registered organization is not present in JSON data'',
          ''Registered organization'' @ [CHR 0x27] @ ''s address is not present in JSON data'',
          ''Registered organization'' @ [CHR 0x27] @ ''s country is not present in JSON data''],
         Returned (ResDict [(''mac_address'', PStr x), (''registered_organization'', PNone),
                            (''organization_address'', PNone), (''country'', PNone)],
                   PDict []))"
    by (simp add: f MacAddressLookup_data_elements_empty)
qed

theorem scalar_lookup_result_witness:
  "IPReputation_get_json_data abuseipdb ''not-an-ip'' ''valid-key'' =
     ([''The ip address must be a valid IPv4 or IPv6 address.''], Returned PNone)
   \<and> IPReputation_query_abuse_database abuseipdb (LookupStr ''not-an-ip'') ''valid-key'' =
     ([''The ip address must be a valid IPv4 or IPv6 address.''], Returned ResNone)
   \<and> (\<exists>r. IPGeoLocation_decoded_json geo_success = Inr r
         \<and> IPGeoLocation_query_geolocation_database ip_api (LookupStr ''8.8.8.8'') =
             ([], Returned (ResDict r))
         \<and> (\<exists>s. map_of r ''ip_address'' = Some (PStr s)))
   \<and> (\<exists>out r new. ArinWhois_query_whois arin (PDict []) (LookupStr ''67.21.32.233'') =
          (out, Returned (ResDict r, new))
         \<and> map_of r ''ip_address'' = Some (PStr ''67.21.32.233''))
   \<and> (\<exists>r. IPReputation_decoded_json abuse_report = Inr r
         \<and> IPReputation_query_abuse_database abuseipdb (LookupStr ''67.21.32.233'')
             ''valid-key'' = ([], Returned (ResDict r))
         \<and> (\<exists>s. map_of r ''ip_address'' = Some (PStr s)))
   \<and> IPGeoLocation_query_geolocation_database ip_api (LookupStr ''not-an-address'') =
       ([''The query failed. Please review your input data for not-an-address''],
        Returned ResNone)
   \<and> (\<exists>out r new.
         MacAddressLookup_lookup_address_information maclookup (PDict [])
           (LookupStr ''04:7b:cb:3b:75:94'') = (out, Returned (ResDict r, new))
         \<and> map_of r ''mac_address'' = Some (PStr ''04:7b:cb:3b:75:94''))
   \<and> arin ''10.0.0.1'' = Response 404 (Inl ''Expecting value: line 1 column 1 (char 0)'')
   \<and> ArinWhois_query_whois arin (PDict []) (LookupStr ''10.0.0.1'') =
        ([''Registered_organization is not present in JSON data'',
          ''The JSON keys to obtain the network range were invalid.'',
          ''The JSON keys to obtain the CIDR range were invalid.''],
         Returned (ResDict [(''ip_address'', PStr ''10.0.0.1''), (''organization'', PNone),
                            (''network'', PNone), (''cidr'', PNone)], PDict []))
   \<and> maclookup ''a4:5e:60:00:00:01'' =
        Response 503 (Inl ''Expecting value: line 1 column 1 (char 0)'')
   \<and> MacAddressLookup_lookup_address_information maclookup (PDict [])
          (LookupStr ''a4:5e:60:00:00:01'') =
        ([''Registered organization is not present in JSON data'',
          ''Registered organization'' @ [CHR 0x27] @ ''s address is not present in JSON data'',
          ''Registered organization'' @ [CHR 0x27] @ ''s country is not present in JSON data''],
         Returned (ResDict [(''mac_address'', PStr ''a4:5e:60:00:00:01''),
                            (''registered_organization'', PNone),
                            (''organization_address'', PNone), (''country'', PNone)],
                   PDict []))"
proof -
  have r1: "IPReputation_get_json_data abuseipdb ''not-an-ip'' ''valid-key'' =
     ([''The ip address must be a valid IPv4 or IPv6 address.''], Returned PNone)"
    by (simp add: example_services readers text_functions)
  have r2: "\<not> truthy PNone" by simp
  have g1: "IPGeoLocation_get_json_data ip_api ''8.8.8.8'' = ([], Returned geo_success)"
    by (simp add: example_services IPGeoLocation_get_json_data_def)
  have g2: "truthy geo_success" by (simp add: geo_success_def)
  obtain rcd where g3: "IPGeoLocation_decoded_json geo_success = Inr rcd"
    by (simp add: example_services readers text_functions)
  obtain out1 res1 new1 where w1:
    "ArinWhois_query_whois arin (PDict []) (LookupStr ''67.21.32.233'') =
       (out1, Returned (res1, new1))"
    by (simp add: example_services readers)
  have w2: "arin ''10.0.0.1'' = Response 404 (Inl ''Expecting value: line 1 column 1 (char 0)'')"
    and w3: "(404::int) \<noteq> 200"
    by (simp_all add: arin_def)
  have v1: "maclookup ''a4:5e:60:00:00:01'' =
      Response 503 (Inl ''Expecting value: line 1 column 1 (char 0)'')"
    and v2: "(503::int) \<notin> {200, 400, 401, 429}"
    by (simp_all add: maclookup_def)
  note a = scalar_lookup_result [where rnet = abuseipdb and x = "''not-an-ip''"
      and key = "''valid-key''"
      and out = "[''The ip address must be a valid IPv4 or IPv6 address.'']" and data = PNone]
  note b = scalar_lookup_result [where gnet = ip_api and x = "''8.8.8.8''" and out = "[]"
      and data = geo_success and r = rcd]
  note c = scalar_lookup_result [where wnet = arin and old = "PDict []"
      and x = "''67.21.32.233''" and out = out1 and res = res1 and new = new1]
  note d = scalar_lookup_result [where wnet = arin and x = "''10.0.0.1''" and code = 404
      and body = "Inl ''Expecting value: line 1 column 1 (char 0)''"]
  note e = scalar_lookup_result [where vnet = maclookup and x = "''a4:5e:60:00:00:01''"
      and code = 503 and body = "Inl ''Expecting value: line 1 column 1 (char 0)''"]
  have A: "IPReputation_query_abuse_database abuseipdb (LookupStr ''not-an-ip'') ''valid-key'' =
     ([''The ip address must be a valid IPv4 or IPv6 address.''], Returned ResNone)"
    using a [THEN conjunct1, THEN mp, OF r1, THEN conjunct1, THEN mp, OF r2] .
  note b' = b [THEN conjunct2, THEN conjunct1, THEN mp, OF g1, THEN conjunct2, THEN mp,
      OF conjI [OF g2 g3]]
  have B: "\<exists>r. IPGeoLocation_decoded_json geo_success = Inr r
         \<and> IPGeoLocation_query_geolocation_database ip_api (LookupStr ''8.8.8.8'') =
             ([], Returned (ResDict r))
         \<and> (\<exists>s. map_of r ''ip_address'' = Some (PStr s))"
    by (rule exI [of _ rcd]) (intro conjI g3 b' [THEN conjunct1] b' [THEN conjunct2])
  from c [THEN conjunct2, THEN conjunct2, THEN conjunct1, THEN mp, OF w1]
  obtain rcd1 where c': "res1 = ResDict rcd1" "map_of rcd1 ''ip_address'' = Some (PStr ''67.21.32.233'')"
    by (elim exE conjE)
  have C: "\<exists>out r new. ArinWhois_query_whois arin (PDict []) (LookupStr ''67.21.32.233'') =
          (out, Returned (ResDict r, new))
         \<and> map_of r ''ip_address'' = Some (PStr ''67.21.32.233'')"
    using w1 c' by (intro exI [of _ out1] exI [of _ rcd1] exI [of _ new1]) simp
  have D: "ArinWhois_query_whois arin (PDict []) (LookupStr ''10.0.0.1'') =
        ([''Registered_organization is not present in JSON data'',
          ''The JSON keys to obtain the network range were invalid.'',
          ''The JSON keys to obtain the CIDR range were invalid.''],
         Returned (ResDict [(''ip_address'', PStr ''10.0.0.1''), (''organization'', PNone),
                            (''network'', PNone), (''cidr'', PNone)], PDict []))"
    using d [THEN conjunct2, THEN conjunct2, THEN conjunct2, THEN conjunct1, THEN mp,
        OF conjI [OF w2 w3], THEN conjunct2] .
  have E: "MacAddressLookup_lookup_address_information maclookup (PDict [])
          (LookupStr ''a4:5e:60:00:00:01'') =
        ([''Registered organization is not present in JSON data'',
          ''Registered organization'' @ [CHR 0x27] @ ''s address is not present in JSON data'',
          ''Registered organization'' @ [CHR 0x27] @ ''s country is not present in JSON data''],
         Returned (ResDict [(''mac_address'', PStr ''a4:5e:60:00:00:01''),
                            (''registered_organization'', PNone),
                            (''organization_address'', PNone), (''country'', PNone)],
                   PDict []))"
    using e [THEN conjunct2, THEN conjunct2, THEN conjunct2, THEN conjunct2, THEN conjunct2,
        THEN mp, OF conjI [OF v1 v2], THEN conjunct2] .
  have r3: "IPReputation_get_json_data abuseipdb ''67.21.32.233'' ''valid-key'' =
      ([], Returned abuse_report)"
    by (simp add: abuseipdb_def IPReputation_get_json_data_def)
  have r4: "truthy abuse_report" by (simp add: abuse_report_def)
  obtain rcd2 where r5: "IPReputation_decoded_json abuse_report = Inr rcd2"
    by (simp add: example_services readers text_functions)
  note f = scalar_lookup_result [where rnet = abuseipdb and x = "''67.21.32.233''"
      and key = "''valid-key''" and out = "[]" and data = abuse_report and r = rcd2,
      THEN conjunct1, THEN mp, OF r3, THEN conjunct2, THEN mp, OF conjI [OF r4 r5]]
  have F: "\<exists>r. IPReputation_decoded_json abuse_report = Inr r
         \<and> IPReputation_query_abuse_database abuseipdb (LookupStr ''67.21.32.233'')
             ''valid-key'' = ([], Returned (ResDict r))
         \<and> (\<exists>s. map_of r ''ip_address'' = Some (PStr s))"
    by (rule exI [of _ rcd2]) (intro conjI r5 f [THEN conjunct1] f [THEN conjunct2])
  have g5: "IPGeoLocation_get_json_data ip_api ''not-an-address'' =
      ([''The query failed. Please review your input data for not-an-address''], Returned PNone)"
    by (simp add: example_services IPGeoLocation_get_json_data_def)
  have G: "IPGeoLocation_query_geolocation_database ip_api (LookupStr ''not-an-address'') =
       ([''The query failed. Please review your input data for not-an-address''],
        Returned ResNone)"
    using scalar_lookup_result [where gnet = ip_api and x = "''not-an-address''"
      and out = "[''The query failed. Please review your input data for not-an-address'']"
      and data = PNone,
      THEN conjunct2, THEN conjunct1, THEN mp, OF g5, THEN conjunct1, THEN mp, OF r2] .
  obtain out3 res3 new3 where v3:
    "MacAddressLookup_lookup_address_information maclookup (PDict [])
       (LookupStr ''04:7b:cb:3b:75:94'') = (out3, Returned (res3, new3))"
    by (simp add: example_services readers)
  from scalar_lookup_result [where vnet = maclookup and old = "PDict []"
      and x = "''04:7b:cb:3b:75:94''" and out = out3 and res = res3 and new = new3,
      THEN conjunct2, THEN conjunct2, THEN conjunct2, THEN conjunct2, THEN conjunct1,
      THEN mp, OF v3]
  obtain rcd3 where h': "res3 = ResDict rcd3"
    "map_of rcd3 ''mac_address'' = Some (PStr ''04:7b:cb:3b:75:94'')"
    by (elim exE conjE)
  have H: "\<exists>out r new.
         MacAddressLookup_lookup_address_information maclookup (PDict [])
           (LookupStr ''04:7b:cb:3b:75:94'') = (out, Returned (ResDict r, new))
         \<and> map_of r ''mac_address'' = Some (PStr ''04:7b:cb:3b:75:94'')"
    using v3 h' by (intro exI [of _ out3] exI [of _ rcd3] exI [of _ new3]) simp
  show ?thesis
    by (intro conjI r1 A B C F G H w2 D v1 E)
qed

text \<open>
  C7, as stated, fails: the registry answers an identifier with HTTP 404, the fetch
  returns \<^verbatim>\<open>None\<close>, and the scalar lookup still returns a Record for the identifier.
\<close>

theorem scalar_lookup_result_counterexample:
  "arin ''10.0.0.1'' = Response 404 (Inl ''Expecting value: line 1 column 1 (char 0)'')
   \<and> ArinWhois_get_whois_json arin (PDict []) ''10.0.0.1'' = ([], Returned (PNone, PDict []))
   \<and> ArinWhois_query_whois arin (PDict []) (LookupStr ''10.0.0.1'') =
        ([''Registered_organization is not present in JSON data'',
          ''The JSON keys to obtain the network range were invalid.'',
          ''The JSON keys to obtain the CIDR range were invalid.''],
         Returned (ResDict [(''ip_address'', PStr ''10.0.0.1''), (''organization'', PNone),
                            (''network'', PNone), (''cidr'', PNone)], PDict []))"
  by (simp add: example_services readers)

section \<open>A failed geolocation query\<close>

lemma IPGeoLocation_get_json_data_fail:
  assumes "net x = Response 200 (Inr body)" and "getitem body ''status'' = Inr (PStr ''fail'')"
  shows "IPGeoLocation_get_json_data net x =
           ([''The query failed. Please review your input data for '' @ x], Returned PNone)"
  using assms by (simp add: IPGeoLocation_get_json_data_def)

lemma IPGeoLocation_loop_skip:
  assumes "IPGeoLocation_get_json_data net x = (out, Returned PNone)"
  shows "snd (IPGeoLocation_loop net (pre @ x # post) acc) =
         snd (IPGeoLocation_loop net (pre @ post) acc)"
proof (induction pre arbitrary: acc)
  case Nil
  show ?case using assms by simp
next
  case (Cons p pre)
  show ?case
    by (simp add: snd_bind_run Cons.IH split: outcome.splits)
qed

text \<open>
  C8. When the geolocation service answers an identifier with HTTP 200 and a body whose
  \<^verbatim>\<open>status\<close> is \<^verbatim>\<open>"fail"\<close>, the fetch reports it and returns \<^verbatim>\<open>None\<close>; a scalar lookup of the
  identifier returns \<^verbatim>\<open>None\<close>, and a list lookup ends as it would without the identifier:
  no Record is made for it.
\<close>

theorem geolocation_fail_status_no_record:
  assumes "net x = Response 200 (Inr body)" and "getitem body ''status'' = Inr (PStr ''fail'')"
  shows "IPGeoLocation_query_geolocation_database net (LookupStr x) =
           ([''The query failed. Please review your input data for '' @ x], Returned ResNone)
       \<and> snd (IPGeoLocation_query_geolocation_database net (LookupList (pre @ x # post))) =
         snd (IPGeoLocation_query_geolocation_database net (LookupList (pre @ post)))"
proof -
  note fetch = IPGeoLocation_get_json_data_fail [of net x body, OF assms]
  have "snd (IPGeoLocation_loop net (pre @ x # post) []) =
        snd (IPGeoLocation_loop net (pre @ post) [])"
    using fetch by (rule IPGeoLocation_loop_skip)
  then show ?thesis
    using fetch by (simp add: snd_bind_run)
qed

theorem geolocation_fail_status_no_record_witness:
  "ip_api ''not-an-address'' = Response 200 (Inr geo_fail)
   \<and> getitem geo_fail ''status'' = Inr (PStr ''fail'')
   \<and> IPGeoLocation_query_geolocation_database ip_api (LookupStr ''not-an-address'') =
       ([''The query failed. Please review your input data for not-an-address''],
        Returned ResNone)
   \<and> snd (IPGeoLocation_query_geolocation_database ip_api
            (LookupList [''8.8.8.8'', ''not-an-address'', ''8.8.8.8''])) =
     snd (IPGeoLocation_query_geolocation_database ip_api (LookupList [''8.8.8.8'', ''8.8.8.8'']))"
proof -
  have h1: "ip_api ''not-an-address'' = Response 200 (Inr geo_fail)"
    by (simp add: ip_api_def)
  have h2: "getitem geo_fail ''status'' = Inr (PStr ''fail'')"
    by (simp add: geo_fail_def)
  show ?thesis
    using h1 h2
      geolocation_fail_status_no_record [of ip_api "''not-an-address''" geo_fail
        "[''8.8.8.8'']" "[''8.8.8.8'']", OF h1 h2]
    by simp
qed

section \<open>The registered organization of a hardware address\<close>

lemma MacAddressLookup_organization_random:
  "getitem data ''isRand'' = Inr (PBool True) \<Longrightarrow>
   MacAddressLookup_get_registered_organization data = ([], Returned (PStr ''randomly assigned''))"
  by (simp add: MacAddressLookup_get_registered_organization_def except_KeyError_def)

lemma MacAddressLookup_organization_company:
  "getitem data ''isRand'' = Inr (PBool False) \<Longrightarrow> getitem data ''company'' = Inr company \<Longrightarrow>
   MacAddressLookup_get_registered_organization data = ([], Returned company)"
  by (simp add: MacAddressLookup_get_registered_organization_def except_KeyError_def)

lemma MacAddressLookup_lookup_organization:
  assumes "net x = Response 200 (Inr data)"
    and "getitem data ''isRand'' = Inr flag"
    and "MacAddressLookup_get_registered_organization data = ([], Returned organization)"
  shows "\<exists>out record.
           MacAddressLookup_lookup_address_information net old (LookupStr x) =
             (out, Returned (ResDict record, data))
           \<and> map_of record ''registered_organization'' = Some organization"
proof -
  from assms(2) obtain kvs where d: "data = PDict kvs"
    using getitem_Inr_dict by blast
  obtain out1 v1 where a: "MacAddressLookup_get_registered_organization_address data = (out1, Returned v1)"
    using MacAddressLookup_address_dict d by blast
  obtain out2 v2 where c: "MacAddressLookup_get_registered_organization_country data = (out2, Returned v2)"
    using MacAddressLookup_country_dict d by blast
  show ?thesis
    using assms(1,3) a c
    by (simp add: MacAddressLookup_get_json_data_def MacAddressLookup_data_elements_def)
qed

text \<open>
  C9. When the flag \<^verbatim>\<open>isRand\<close> of a vendor response is \<^verbatim>\<open>true\<close>, the registered
  organization is the text "randomly assigned", whatever the field \<^verbatim>\<open>company\<close> holds
  (no assumption is made on it); when the flag is \<^verbatim>\<open>false\<close>, it is the value of the field
  \<^verbatim>\<open>company\<close>. This holds for the reader and for the Record that a scalar lookup returns
  for an identifier the service answers with this response.
\<close>

theorem vendor_registered_organization:
  "(getitem data ''isRand'' = Inr (PBool True) \<longrightarrow>
      MacAddressLookup_get_registered_organization data =
        ([], Returned (PStr ''randomly assigned''))
      \<and> (net x = Response 200 (Inr data) \<longrightarrow>
          (\<exists>out record.
             MacAddressLookup_lookup_address_information net old (LookupStr x) =
               (out, Returned (ResDict record, data))
             \<and> map_of record ''registered_organization'' = Some (PStr ''randomly assigned''))))
   \<and> (getitem data ''isRand'' = Inr (PBool False) \<and> getitem data ''company'' = Inr company \<longrightarrow>
      MacAddressLookup_get_registered_organization data = ([], Returned company)
      \<and> (net x = Response 200 (Inr data) \<longrightarrow>
          (\<exists>out record.
             MacAddressLookup_lookup_address_information net old (LookupStr x) =
               (out, Returned (ResDict record, data))
             \<and> map_of record ''registered_organization'' = Some company)))"
  using MacAddressLookup_organization_random [of data]
    MacAddressLookup_organization_company [of data company]
    MacAddressLookup_lookup_organization [of net x data "PBool True" "PStr ''randomly assigned'' " old]
    MacAddressLookup_lookup_organization [of net x data "PBool False" company old]
  by blast

theorem vendor_registered_organization_witness:
  "getitem mac_random ''isRand'' = Inr (PBool True)
   \<and> getitem mac_random ''company'' = Inr (PStr ''Example Devices'')
   \<and> MacAddressLookup_get_registered_organization mac_random =
       ([], Returned (PStr ''randomly assigned''))
   \<and> getitem mac_vendor ''isRand'' = Inr (PBool False)
   \<and> MacAddressLookup_get_registered_organization mac_vendor =
       ([], Returned (PStr ''Universal Global Scientific Industrial Co., Ltd.''))
   \<and> (\<exists>out record.
        MacAddressLookup_lookup_address_information maclookup (PDict []) (LookupStr ''da:12:34:56:78:9a'') =
          (out, Returned (ResDict record, mac_random))
        \<and> map_of record ''registered_organization'' = Some (PStr ''randomly assigned''))
   \<and> (\<exists>out record.
        MacAddressLookup_lookup_address_information maclookup (PDict []) (LookupStr ''04:7b:cb:3b:75:94'') =
          (out, Returned (ResDict record, mac_vendor))
        \<and> map_of record ''registered_organization'' =
            Some (PStr ''Universal Global Scientific Industrial Co., Ltd.''))"
proof -
  have h1: "getitem mac_random ''isRand'' = Inr (PBool True)"
    and h2: "getitem mac_random ''company'' = Inr (PStr ''Example Devices'')"
    by (simp_all add: mac_random_def)
  have h3: "getitem mac_vendor ''isRand'' = Inr (PBool False)"
    and h4: "getitem mac_vendor ''company'' =
               Inr (PStr ''Universal Global Scientific Industrial Co., Ltd.'')"
    by (simp_all add: mac_vendor_def)
  have h5: "maclookup ''da:12:34:56:78:9a'' = Response 200 (Inr mac_random)"
    by (simp add: maclookup_def)
  have h6: "maclookup ''04:7b:cb:3b:75:94'' = Response 200 (Inr mac_vendor)"
    by (simp add: maclookup_def)
  show ?thesis
    using h1 h2 h3 h4 h5 h6
      vendor_registered_organization [of mac_random maclookup "''da:12:34:56:78:9a''" "PDict []"]
      vendor_registered_organization [of mac_vendor maclookup "''04:7b:cb:3b:75:94''" "PDict []"
        "PStr ''Universal Global Scientific Industrial Co., Ltd.''"]
    by simp
qed

section \<open>Latitude and longitude in the geolocation Record\<close>

lemma IPGeoLocation_decoded_json_present:
  assumes "getitem json_data ''query'' = Inr v1" "getitem json_data ''org'' = Inr v2"
    "getitem json_data ''isp'' = Inr v3" "getitem json_data ''countryCode'' = Inr v4"
    "getitem json_data ''regionName'' = Inr v5" "getitem json_data ''city'' = Inr v6"
    "getitem json_data ''lat'' = Inr v7" "getitem json_data ''lon'' = Inr v8"
    "getitem json_data ''timezone'' = Inr v9" "getitem json_data ''as'' = Inr v10"
  shows "IPGeoLocation_decoded_json json_data =
    Inr [(''ip_address'', PStr (strip_quotes (json_dumps v1))),
          (''domain_name'', PStr (strip_quotes (json_dumps v2))),
          (''as_number'', PStr (strip_quotes (split_first (json_dumps v10)))),
          (''isp_name'', PStr (strip_quotes (json_dumps v3))),
          (''country_code'', PStr (strip_quotes (json_dumps v4))),
          (''region_name'', PStr (json_dumps v5)),
          (''city_name'', PStr (strip_quotes (json_dumps v6))),
          (''longitude'', PStr (strip_quotes (json_dumps v7))),
          (''latitude'', PStr (strip_quotes (json_dumps v8))),
          (''timezone'', PStr (strip_quotes (json_dumps v9)))]"
  using assms by (simp add: IPGeoLocation_decoded_json_def dumps_item_def)

text \<open>
  C10. Let a geolocation response hold numbers under \<^verbatim>\<open>lat\<close> and \<^verbatim>\<open>lon\<close>. Every Record
  that extraction returns for it has the text of the response's \<^verbatim>\<open>lat\<close> in its field
  \<^verbatim>\<open>longitude\<close> and the text of the response's \<^verbatim>\<open>lon\<close> in its field \<^verbatim>\<open>latitude\<close>. When
  the response holds the ten fields the class reads, extraction does return a Record, and
  it is the Record a scalar lookup returns when the service answers with this response
  and \<^verbatim>\<open>status\<close> \<^verbatim>\<open>"success"\<close>.
\<close>

theorem geolocation_lat_lon_swapped:
  assumes lat: "getitem json_data ''lat'' = Inr lat" and lon: "getitem json_data ''lon'' = Inr lon"
    and numeric: "is_number lat" "is_number lon"
  shows "(\<forall>r. IPGeoLocation_decoded_json json_data = Inr r \<longrightarrow>
            map_of r ''longitude'' = Some (PStr (json_dumps lat))
            \<and> map_of r ''latitude'' = Some (PStr (json_dumps lon)))
       \<and> ((\<forall>k \<in> set IPGeoLocation_keys. \<exists>v. getitem json_data k = Inr v) \<longrightarrow>
            (\<exists>r. IPGeoLocation_decoded_json json_data = Inr r
               \<and> (\<forall>net x. net x = Response 200 (Inr json_data)
                      \<and> getitem json_data ''status'' = Inr (PStr ''success'')
                    \<longrightarrow> IPGeoLocation_query_geolocation_database net (LookupStr x) =
                          ([], Returned (ResDict r)))))"
proof -
  have fields: "map_of r ''longitude'' = Some (PStr (json_dumps lat))
      \<and> map_of r ''latitude'' = Some (PStr (json_dumps lon))"
    if present: "\<forall>k \<in> set IPGeoLocation_keys. \<exists>v. getitem json_data k = Inr v"
      and r: "IPGeoLocation_decoded_json json_data = Inr r" for r
  proof -
    from present obtain v1 v2 v3 v4 v5 v6 v9 v10 where
      "getitem json_data ''query'' = Inr v1" "getitem json_data ''org'' = Inr v2"
      "getitem json_data ''isp'' = Inr v3" "getitem json_data ''countryCode'' = Inr v4"
      "getitem json_data ''regionName'' = Inr v5" "getitem json_data ''city'' = Inr v6"
      "getitem json_data ''timezone'' = Inr v9" "getitem json_data ''as'' = Inr v10"
      unfolding IPGeoLocation_keys_def by (simp only: list.set ball_simps) blast
    note dec = IPGeoLocation_decoded_json_present [OF this(1-6) lat lon this(7-8)]
    from dec r numeric show ?thesis
      by (auto simp: json_dumps_number)
  qed
  show ?thesis
  proof (intro conjI allI impI)
    fix r assume r: "IPGeoLocation_decoded_json json_data = Inr r"
    then have present: "\<forall>k \<in> set IPGeoLocation_keys. \<exists>v. getitem json_data k = Inr v"
      using IPGeoLocation_decoded_json_needs_keys by blast
    from fields [OF present r]
    show "map_of r ''longitude'' = Some (PStr (json_dumps lat))"
      and "map_of r ''latitude'' = Some (PStr (json_dumps lon))"
      by simp_all
  next
    assume present: "\<forall>k \<in> set IPGeoLocation_keys. \<exists>v. getitem json_data k = Inr v"
    then obtain v1 v2 v3 v4 v5 v6 v9 v10 where
      "getitem json_data ''query'' = Inr v1" "getitem json_data ''org'' = Inr v2"
      "getitem json_data ''isp'' = Inr v3" "getitem json_data ''countryCode'' = Inr v4"
      "getitem json_data ''regionName'' = Inr v5" "getitem json_data ''city'' = Inr v6"
      "getitem json_data ''timezone'' = Inr v9" "getitem json_data ''as'' = Inr v10"
      unfolding IPGeoLocation_keys_def by (simp only: list.set ball_simps) blast
    note dec = IPGeoLocation_decoded_json_present [OF this(1-6) lat lon this(7-8)]
    have truthy: "truthy json_data" using lat by (rule getitem_Inr_truthy)
    show "\<exists>r. IPGeoLocation_decoded_json json_data = Inr r
        \<and> (\<forall>net x. net x = Response 200 (Inr json_data)
                \<and> getitem json_data ''status'' = Inr (PStr ''success'')
              \<longrightarrow> IPGeoLocation_query_geolocation_database net (LookupStr x) =
                    ([], Returned (ResDict r)))"
      using dec truthy by (simp add: IPGeoLocation_get_json_data_def)
  qed
qed

theorem geolocation_lat_lon_swapped_witness:
  "getitem geo_success ''lat'' = Inr (PFloat ''39.03'')
   \<and> getitem geo_success ''lon'' = Inr (PFloat ''-77.5'')
   \<and> (\<exists>r. IPGeoLocation_decoded_json geo_success = Inr r
         \<and> map_of r ''longitude'' = Some (PStr ''39.03'')
         \<and> map_of r ''latitude'' = Some (PStr ''-77.5'')
         \<and> IPGeoLocation_query_geolocation_database ip_api (LookupStr ''8.8.8.8'') =
             ([], Returned (ResDict r)))"
proof -
  have h1: "\<forall>k \<in> set IPGeoLocation_keys. \<exists>v. getitem geo_success k = Inr v"
    by (simp add: IPGeoLocation_keys_def geo_success_def)
  have h2: "getitem geo_success ''lat'' = Inr (PFloat ''39.03'')"
    and h3: "getitem geo_success ''lon'' = Inr (PFloat ''-77.5'')"
    and h4: "getitem geo_success ''status'' = Inr (PStr ''success'')"
    by (simp_all add: geo_success_def)
  have h5: "is_number (PFloat ''39.03'')" and h6: "is_number (PFloat ''-77.5'')"
    by simp_all
  have h7: "ip_api ''8.8.8.8'' = Response 200 (Inr geo_success)"
    by (simp add: ip_api_def)
  note t = geolocation_lat_lon_swapped [OF h2 h3 h5 h6]
  from t [THEN conjunct2, THEN mp, OF h1] obtain rcd where
    r: "IPGeoLocation_decoded_json geo_success = Inr rcd"
    and q: "\<forall>net x. net x = Response 200 (Inr geo_success)
                  \<and> getitem geo_success ''status'' = Inr (PStr ''success'')
                \<longrightarrow> IPGeoLocation_query_geolocation_database net (LookupStr x) =
                      ([], Returned (ResDict rcd))"
    by (elim exE conjE)
  from t [THEN conjunct1, THEN spec, THEN mp, OF r]
  have f: "map_of rcd ''longitude'' = Some (PStr ''39.03'')"
    "map_of rcd ''latitude'' = Some (PStr ''-77.5'')"
    by simp_all
  from q [THEN spec [of _ ip_api], THEN spec [of _ "''8.8.8.8''"], THEN mp, OF conjI [OF h7 h4]]
  have l: "IPGeoLocation_query_geolocation_database ip_api (LookupStr ''8.8.8.8'') =
      ([], Returned (ResDict rcd))" .
  show ?thesis
    by (intro conjI h2 h3 exI [of _ rcd] r f l)
qed

end
